theory Spec2Isabelle
  imports Main "HOL-Library.Sublist" "HOL-Library.Char_ord" "HOL-Library.List_Lexorder"
begin

section \<open>Data model (app/models.py)\<close>

text \<open>
  \<^verbatim>\<open>class HTTPMethod(str, Enum)\<close>: the five methods an endpoint record can carry.
  \<open>method_value\<close> is the enum's \<^verbatim>\<open>.value\<close>.
\<close>

datatype HTTPMethod = GET | POST | PUT | DELETE | PATCH

fun method_value :: "HTTPMethod \<Rightarrow> string" where
  "method_value GET = ''GET''"
| "method_value POST = ''POST''"
| "method_value PUT = ''PUT''"
| "method_value DELETE = ''DELETE''"
| "method_value PATCH = ''PATCH''"

text \<open>
  JSON values as \<^verbatim>\<open>json.loads\<close> returns them: a dict keeps its insertion order, so an
  object is an association list. Numbers are restricted to integers.
\<close>

datatype json =
    JNull
  | JBool bool
  | JInt int
  | JStr string
  | JArr "json list"
  | JObj "(string \<times> json) list"

text \<open>The enums and the \<^verbatim>\<open>ParameterInfo\<close> dataclass of app/enhanced_analyzer.py.\<close>

datatype ParameterSource = PATH | QUERY | BODY | HEADER | COOKIE | FORM | UNKNOWN_SOURCE

datatype ParameterType =
  STRING | INTEGER | FLOAT | BOOLEAN | ARRAY | OBJECT | FILE | UNKNOWN_TYPE

record ParameterInfo =
  pi_name :: string
  pi_type :: ParameterType
  pi_source :: ParameterSource
  pi_required :: bool
  pi_description :: string

text \<open>
  A value of the \<^verbatim>\<open>parameters: Optional[Dict[str, Any]]\<close> dictionary of an endpoint: either
  plain JSON-like data (the parsers store a dict per parameter) or a \<^verbatim>\<open>ParameterInfo\<close>
  object. In the record below, \<open>http_method\<close> is the field \<^verbatim>\<open>method\<close> of the class.
\<close>

datatype param_value = PJson json | PObj ParameterInfo

record APIEndpoint =
  url :: string
  http_method :: HTTPMethod
  description :: "string option"
  parameters :: "(string \<times> param_value) list option"
  request_body :: "json option"
  response_schema :: "json option"
  authentication_required :: bool
  tags :: "string list"

section \<open>Merge and deduplication (app/api_discoverer.py)\<close>

text \<open>
  \<^verbatim>\<open>key = f"{endpoint.url}:{endpoint.method}"\<close>. The method is formatted as its value
  (a \<^verbatim>\<open>str\<close>-mixin enum under \<^verbatim>\<open>format\<close>; interpreters from 3.11 on put the constant
  prefix \<^verbatim>\<open>HTTPMethod.\<close> before it, which has no colon either and changes nothing below).
\<close>

definition endpoint_key :: "APIEndpoint \<Rightarrow> string" where
  "endpoint_key e = url e @ '':'' @ method_value (http_method e)"

text \<open>
  The loop of \<^verbatim>\<open>_deduplicate_endpoints\<close>, with its two local variables \<^verbatim>\<open>seen\<close> and
  \<^verbatim>\<open>unique\<close> passed explicitly.
\<close>

fun dedup_loop :: "string set \<Rightarrow> APIEndpoint list \<Rightarrow> APIEndpoint list \<Rightarrow> APIEndpoint list" where
  "dedup_loop seen unique [] = unique"
| "dedup_loop seen unique (e # es) =
     (let key = endpoint_key e in
      if key \<notin> seen then dedup_loop (insert key seen) (unique @ [e]) es
      else dedup_loop seen unique es)"

definition deduplicate_endpoints :: "APIEndpoint list \<Rightarrow> APIEndpoint list" where
  "deduplicate_endpoints endpoints = dedup_loop {} [] endpoints"

section \<open>Python string operations\<close>

text \<open>
  \<^verbatim>\<open>str.replace(old, new)\<close>: non-overlapping occurrences of \<open>old\<close> are replaced from left
  to right; an empty \<open>old\<close> matches before every character and at the end.
\<close>

function replace :: "string \<Rightarrow> string \<Rightarrow> string \<Rightarrow> string" where
  "replace [] old new = (if old = [] then new else [])"
| "replace (c # cs) old new =
     (if old = [] then new @ c # replace cs old new
      else if prefix old (c # cs) then new @ replace (drop (length old) (c # cs)) old new
      else c # replace cs old new)"
  by pat_completeness auto
termination
  by (relation "measure (\<lambda>(s, old, new). length s)") auto

text \<open>\<^verbatim>\<open>str.lower()\<close> and \<^verbatim>\<open>str.upper()\<close> on ASCII text.\<close>

definition ascii_uppercase :: string where
  "ascii_uppercase = ''ABCDEFGHIJKLMNOPQRSTUVWXYZ''"

definition ascii_lowercase :: string where
  "ascii_lowercase = ''abcdefghijklmnopqrstuvwxyz''"

definition digits :: string where
  "digits = ''0123456789''"

definition lower_char :: "char \<Rightarrow> char" where
  "lower_char c = (case map_of (zip ascii_uppercase ascii_lowercase) c of None \<Rightarrow> c | Some d \<Rightarrow> d)"

definition upper_char :: "char \<Rightarrow> char" where
  "upper_char c = (case map_of (zip ascii_lowercase ascii_uppercase) c of None \<Rightarrow> c | Some d \<Rightarrow> d)"

definition lower :: "string \<Rightarrow> string" where
  "lower s = map lower_char s"

definition upper :: "string \<Rightarrow> string" where
  "upper s = map upper_char s"

definition isdigit :: "char \<Rightarrow> bool" where
  "isdigit c = (c \<in> set digits)"

definition isalpha :: "char \<Rightarrow> bool" where
  "isalpha c = (c \<in> set ascii_uppercase \<or> c \<in> set ascii_lowercase)"

text \<open>\<^verbatim>\<open>s.rstrip(chars)\<close>: drop the trailing characters that belong to \<open>chars\<close>.\<close>

definition rstrip :: "string \<Rightarrow> string \<Rightarrow> string" where
  "rstrip chars s = rev (dropWhile (\<lambda>c. c \<in> set chars) (rev s))"

text \<open>\<^verbatim>\<open>sep.join(xs)\<close>.\<close>

fun join :: "string \<Rightarrow> string list \<Rightarrow> string" where
  "join sep [] = []"
| "join sep [x] = x"
| "join sep (x # y # ys) = x @ sep @ join sep (y # ys)"

text \<open>\<^verbatim>\<open>re.sub(r'_+', '_', s)\<close>: every maximal run of underscores becomes one underscore.\<close>

fun collapse_underscores :: "string \<Rightarrow> string" where
  "collapse_underscores (a # b # cs) =
     (if a = CHR ''_'' \<and> b = CHR ''_'' then collapse_underscores (b # cs)
      else a # collapse_underscores (b # cs))"
| "collapse_underscores cs = cs"

section \<open>Python values: truthiness, dictionary lookup, errors\<close>

datatype error = AttributeError | TypeError | ValidationError | ValueError

text \<open>\<^verbatim>\<open>bool(v)\<close> of a JSON value.\<close>

fun truthy :: "json \<Rightarrow> bool" where
  "truthy JNull = False"
| "truthy (JBool b) = b"
| "truthy (JInt n) = (n \<noteq> 0)"
| "truthy (JStr s) = (s \<noteq> [])"
| "truthy (JArr xs) = (xs \<noteq> [])"
| "truthy (JObj kvs) = (kvs \<noteq> [])"

text \<open>\<^verbatim>\<open>d.get(k, default)\<close> on a dict.\<close>

definition dict_get :: "(string \<times> 'v) list \<Rightarrow> string \<Rightarrow> 'v \<Rightarrow> 'v" where
  "dict_get d k dflt = (case map_of d k of None \<Rightarrow> dflt | Some v \<Rightarrow> v)"

text \<open>\<^verbatim>\<open>d[k] = v\<close> on a dict: an existing key keeps its position and gets the new value.\<close>

fun dict_set :: "('k \<times> 'v) list \<Rightarrow> 'k \<Rightarrow> 'v \<Rightarrow> ('k \<times> 'v) list" where
  "dict_set [] k v = [(k, v)]"
| "dict_set ((k', v') # d) k v = (if k' = k then (k, v) # d else (k', v') # dict_set d k v)"

text \<open>\<^verbatim>\<open>HTTPMethod(s)\<close>: the member with that value, or \<^verbatim>\<open>ValueError\<close> (here \<open>None\<close>).\<close>

definition http_method_of :: "string \<Rightarrow> HTTPMethod option" where
  "http_method_of s =
     (if s = ''GET'' then Some GET
      else if s = ''POST'' then Some POST
      else if s = ''PUT'' then Some PUT
      else if s = ''DELETE'' then Some DELETE
      else if s = ''PATCH'' then Some PATCH
      else None)"

section \<open>Tool generator (app/mcp\_server\_generator.py, \_generate\_fastmcp\_tool)\<close>

text \<open>
  The chain of \<^verbatim>\<open>.replace(old, new)\<close> calls applied to \<^verbatim>\<open>endpoint.url\<close>, in source
  order. Braces are removed by the second and third call, so the later brace entries never
  find anything.
\<close>

definition name_replacements :: "(string \<times> string) list" where
  "name_replacements =
    [(''/'', ''_''), (''{'', []), (''}'', []), (''-'', ''_''), ('':'', ''_''),
     (''.'', ''_''), (''?'', ''_''), (''&'', ''_''), (''='', ''_''), (''+'', ''_''),
     (''@'', ''_''), (''#'', ''_''), (''$'', ''_''), (''%'', ''_''), (''^'', ''_''),
     (''*'', ''_''), (''('', ''_''), ('')'', ''_''), (''['', ''_''), ('']'', ''_''),
     (''{'', ''_''), (''}'', ''_''), (''|'', ''_''), ([CHR 0x5C], ''_''), ('';'', ''_''),
     ([CHR 0x22], ''_''), ([CHR 0x27], ''_''), (''<'', ''_''), (''>'', ''_''),
     ('','', ''_''), (''!'', ''_''), (''~'', ''_''), ([CHR 0x60], ''_'')]"

definition clean_url :: "string \<Rightarrow> string" where
  "clean_url u = foldl (\<lambda>s (old, new). replace s old new) u name_replacements"

text \<open>
  \<^verbatim>\<open>tool_name\<close>: the lowercase method, an underscore and the cleaned path; prefixed with
  \<^verbatim>\<open>endpoint_\<close> when it starts with a digit; underscore runs collapsed, trailing underscores
  stripped.
\<close>

definition tool_name :: "APIEndpoint \<Rightarrow> string" where
  "tool_name endpoint =
     (let n0 = lower (method_value (http_method endpoint)) @ ''_'' @ clean_url (url endpoint);
          n1 = (case n0 of
                  [] \<Rightarrow> n0
                | c # _ \<Rightarrow> if isdigit c then ''endpoint_'' @ n0 else n0)
      in rstrip ''_'' (collapse_underscores n1))"

text \<open>The pattern \<^verbatim>\<open>^[a-zA-Z_][a-zA-Z0-9_]*$\<close> of a Python function name.\<close>

definition ident_start :: "char \<Rightarrow> bool" where
  "ident_start c = (isalpha c \<or> c = CHR ''_'')"

definition ident_char :: "char \<Rightarrow> bool" where
  "ident_char c = (isalpha c \<or> isdigit c \<or> c = CHR ''_'')"

fun valid_identifier :: "string \<Rightarrow> bool" where
  "valid_identifier [] = False"
| "valid_identifier (c # cs) = (ident_start c \<and> list_all ident_char cs)"

text \<open>
  The parameter loop. \<^verbatim>\<open>param_type\<close>, \<^verbatim>\<open>required\<close> are read with \<^verbatim>\<open>.get\<close> from a
  dict and with \<^verbatim>\<open>getattr\<close> from anything else; an enum is replaced by its value.
\<close>

fun type_value :: "ParameterType \<Rightarrow> string" where
  "type_value STRING = ''string''"
| "type_value INTEGER = ''integer''"
| "type_value FLOAT = ''float''"
| "type_value BOOLEAN = ''boolean''"
| "type_value ARRAY = ''array''"
| "type_value OBJECT = ''object''"
| "type_value FILE = ''file''"
| "type_value UNKNOWN_TYPE = ''unknown''"

fun param_type :: "param_value \<Rightarrow> json" where
  "param_type (PJson (JObj d)) = dict_get d ''type'' (JStr ''str'')"
| "param_type (PJson _) = JStr ''str''"
| "param_type (PObj p) = JStr (type_value (pi_type p))"

fun param_required :: "param_value \<Rightarrow> bool" where
  "param_required (PJson (JObj d)) = truthy (dict_get d ''required'' (JBool True))"
| "param_required (PJson _) = True"
| "param_required (PObj p) = pi_required p"

definition python_types :: "(string \<times> string) list" where
  "python_types =
    [(''string'', ''str''), (''integer'', ''int''), (''boolean'', ''bool''),
     (''array'', ''List[str]''), (''object'', ''Dict[str, Any]''), (''float'', ''float''),
     (''unknown'', ''str'')]"

text \<open>
  \<^verbatim>\<open>{...}.get(param_type, 'str')\<close>: a list or a dict as the key is unhashable and raises
  \<^verbatim>\<open>TypeError\<close>; any other non-string key is simply not found.
\<close>

fun python_type :: "json \<Rightarrow> error + string" where
  "python_type (JStr s) = Inr (dict_get python_types s ''str'')"
| "python_type (JArr _) = Inl TypeError"
| "python_type (JObj _) = Inl TypeError"
| "python_type _ = Inr ''str''"

definition required_entry :: "string \<Rightarrow> string \<Rightarrow> string" where
  "required_entry param_name ty = param_name @ '': '' @ ty"

definition optional_entry :: "string \<Rightarrow> string \<Rightarrow> string" where
  "optional_entry param_name ty = param_name @ '': Optional['' @ ty @ ''] = None''"

fun params_loop ::
  "(string \<times> param_value) list \<Rightarrow> string list \<times> string list \<Rightarrow>
   error + (string list \<times> string list)" where
  "params_loop [] acc = Inr acc"
| "params_loop ((param_name, param_info) # rest) (required_params, optional_params) =
     (case python_type (param_type param_info) of
        Inl e \<Rightarrow> Inl e
      | Inr ty \<Rightarrow>
          if param_required param_info
          then params_loop rest (required_params @ [required_entry param_name ty], optional_params)
          else params_loop rest (required_params, optional_params @ [optional_entry param_name ty]))"


text \<open>
  A parameter value the generator gets through: a dict whose \<^verbatim>\<open>type\<close>, when present, is
  hashable (neither a list nor a dict).
\<close>

fun dict_param :: "param_value \<Rightarrow> bool" where
  "dict_param (PJson (JObj d)) =
     (case dict_get d ''type'' (JStr ''str'') of JArr x \<Rightarrow> False | JObj x \<Rightarrow> False | _ \<Rightarrow> True)"
| "dict_param _ = False"

text \<open>
  \<^verbatim>\<open>endpoint.parameters.items()\<close>, or nothing when \<^verbatim>\<open>parameters\<close> is \<^verbatim>\<open>None\<close> or empty.
\<close>

definition param_items :: "APIEndpoint \<Rightarrow> (string \<times> param_value) list" where
  "param_items endpoint = (case parameters endpoint of None \<Rightarrow> [] | Some d \<Rightarrow> d)"

definition headers_entry :: string where
  "headers_entry = ''headers: Dict[str, str] = None''"

definition func_params :: "APIEndpoint \<Rightarrow> error + string list" where
  "func_params endpoint =
     (case params_loop (param_items endpoint) ([], []) of
        Inl e \<Rightarrow> Inl e
      | Inr (required_params, optional_params) \<Rightarrow>
          Inr (required_params @ optional_params @ [headers_entry]))"

text \<open>
  \<^verbatim>\<open>param_info.get('source')\<close> in the URL and body loops: only a dict has \<^verbatim>\<open>.get\<close>.
\<close>

fun get_source :: "param_value \<Rightarrow> error + json" where
  "get_source (PJson (JObj d)) = Inr (dict_get d ''source'' JNull)"
| "get_source _ = Inl AttributeError"

text \<open>
  Path construction: for each path-sourced parameter,
  \<^verbatim>\<open>url_template.replace(f'{{{param_name}}}', f'{{{param_name}}}')\<close>.
\<close>

fun url_loop :: "(string \<times> param_value) list \<Rightarrow> string \<Rightarrow> error + string" where
  "url_loop [] url_template = Inr url_template"
| "url_loop ((param_name, param_info) # rest) url_template =
     (case get_source param_info of
        Inl e \<Rightarrow> Inl e
      | Inr src \<Rightarrow>
          if src = JStr ''path''
          then url_loop rest
                 (replace url_template (''{'' @ param_name @ ''}'') (''{'' @ param_name @ ''}''))
          else url_loop rest url_template)"

fun body_params_of :: "(string \<times> param_value) list \<Rightarrow> error + string list" where
  "body_params_of [] = Inr []"
| "body_params_of ((param_name, param_info) # rest) =
     (case get_source param_info of
        Inl e \<Rightarrow> Inl e
      | Inr src \<Rightarrow>
          (case body_params_of rest of
             Inl e \<Rightarrow> Inl e
           | Inr names \<Rightarrow> Inr (if src = JStr ''body'' then param_name # names else names)))"

definition url_base_of :: "string option \<Rightarrow> string" where
  "url_base_of production_base_url =
     (case production_base_url of
        None \<Rightarrow> ''BASE_URL''
      | Some b \<Rightarrow> if b = [] then ''BASE_URL'' else [CHR 0x22] @ rstrip ''/'' b @ [CHR 0x22])"

text \<open>
  The generated tool. The source joins these pieces (and a docstring built from the
  description lines, which no statement below depends on) into the text of one decorated
  function.
\<close>

record tool =
  t_name :: string
  t_signature :: string
  t_url_construction :: string
  t_data_prep_lines :: "string list"
  t_method_call :: string

definition generate_fastmcp_tool :: "APIEndpoint \<Rightarrow> string option \<Rightarrow> error + tool" where
  "generate_fastmcp_tool endpoint production_base_url =
     (case func_params endpoint of
        Inl e \<Rightarrow> Inl e
      | Inr fps \<Rightarrow>
     (case url_loop (param_items endpoint) (url endpoint) of
        Inl e \<Rightarrow> Inl e
      | Inr url_template \<Rightarrow>
     (case body_params_of (param_items endpoint) of
        Inl e \<Rightarrow> Inl e
      | Inr body_params \<Rightarrow>
          (let mv = method_value (http_method endpoint);
               data_prep_lines =
                 (if body_params \<noteq> [] \<and> mv \<in> set [''POST'', ''PUT'', ''PATCH'']
                  then [''data = {''
                          @ join '', '' (map (\<lambda>p. [CHR 0x22] @ p @ [CHR 0x22] @ '': '' @ p) body_params)
                          @ ''}'',
                        ''data = {k: v for k, v in data.items() if v is not None}'']
                  else [])
           in Inr \<lparr>t_name = tool_name endpoint,
                    t_signature = join '', '' fps,
                    t_url_construction =
                      ''url = f'' @ [CHR 0x22] @ url_base_of production_base_url @ url_template
                        @ [CHR 0x22],
                    t_data_prep_lines = data_prep_lines,
                    t_method_call =
                      ''return asyncio.run(make_request('' @ [CHR 0x22] @ mv @ [CHR 0x22]
                        @ (if data_prep_lines \<noteq> [] then '', url, data, headers))''
                           else '', url, None, headers))'')\<rparr>))))"

text \<open>
  The batch loop of \<^verbatim>\<open>_generate_fastmcp_python_code\<close>: one call per endpoint with no handler
  around it, so the first exception ends the loop.
\<close>

fun generate_tools :: "APIEndpoint list \<Rightarrow> string option \<Rightarrow> error + tool list" where
  "generate_tools [] production_base_url = Inr []"
| "generate_tools (endpoint # rest) production_base_url =
     (case generate_fastmcp_tool endpoint production_base_url of
        Inl e \<Rightarrow> Inl e
      | Inr tool_code \<Rightarrow>
          (case generate_tools rest production_base_url of
             Inl e \<Rightarrow> Inl e
           | Inr tools \<Rightarrow> Inr (tool_code # tools)))"

section \<open>Document pattern extractor (app/pdf\_analyzer.py)\<close>

text \<open>
  The characters \<^verbatim>\<open>str.strip()\<close> removes and \<^verbatim>\<open>\s\<close> matches, among the code points
  below 256: the ASCII ones, the next-line character and the no-break space.
\<close>

definition whitespace :: string where
  "whitespace = [CHR 0x20, CHR 0x09, CHR 0x0A, CHR 0x0B, CHR 0x0C, CHR 0x0D,
                 CHR 0x1C, CHR 0x1D, CHR 0x1E, CHR 0x1F, CHR 0x85, CHR 0xA0]"

definition strip :: "string \<Rightarrow> string" where
  "strip s = dropWhile (\<lambda>c. c \<in> set whitespace) (rstrip whitespace s)"

text \<open>
  \<^verbatim>\<open>_is_valid_api_path\<close>. The five \<^verbatim>\<open>re.search\<close> calls run with \<^verbatim>\<open>re.IGNORECASE\<close>:
  a file extension at the end of the path (\<^verbatim>\<open>$\<close> also matches before a final newline),
  one of three leading directories, or a path of whitespace only.
\<close>

definition file_extensions :: "string list" where
  "file_extensions =
     [''.htm'', ''.html'', ''.css'', ''.js'', ''.png'', ''.jpg'', ''.jpeg'', ''.gif'', ''.pdf'']"

definition ends_with_file_extension :: "string \<Rightarrow> bool" where
  "ends_with_file_extension path =
     list_ex (\<lambda>ext. suffix ext (lower path) \<or> suffix (ext @ [CHR 0x0A]) (lower path))
       file_extensions"

definition is_valid_api_path :: "string \<Rightarrow> bool" where
  "is_valid_api_path path =
     (if \<not> prefix ''/'' path then False
      else if length path < 2 \<or> length path > 200 then False
      else if ends_with_file_extension path then False
      else if prefix ''/static/'' (lower path) then False
      else if prefix ''/assets/'' (lower path) then False
      else if prefix ''/public/'' (lower path) then False
      else if list_all (\<lambda>c. c \<in> set whitespace) path then False
      else True)"

text \<open>
  One match of one of the nine patterns, as \<^verbatim>\<open>re.finditer\<close> yields it: its groups, and
  what the three context helpers return for the text window around it.
\<close>

record regex_match =
  m_groups :: "string list"
  m_parameters :: "(string \<times> param_value) list"
  m_description :: "string option"
  m_tags :: "string list"

text \<open>
  The body of the loop over matches, up to the duplicate check: \<open>None\<close> where the source
  reaches \<^verbatim>\<open>continue\<close> or skips the match.
\<close>

definition match_endpoint :: "regex_match \<Rightarrow> APIEndpoint option" where
  "match_endpoint m =
     (case m_groups m of
        g1 # g2 # _ \<Rightarrow>
          (let method_str = upper g1;
               path = rstrip (''.,;:'' @ [CHR 0x22]) (strip g2)
           in case http_method_of (upper method_str) of
                None \<Rightarrow> None
              | Some mth \<Rightarrow>
                  if \<not> is_valid_api_path path then None
                  else Some \<lparr>url = path, http_method = mth, description = m_description m,
                              parameters = Some (m_parameters m), request_body = None,
                              response_schema = None, authentication_required = False,
                              tags = m_tags m\<rparr>)
      | _ \<Rightarrow> None)"

fun matches_loop :: "regex_match list \<Rightarrow> APIEndpoint list \<Rightarrow> APIEndpoint list" where
  "matches_loop [] endpoints = endpoints"
| "matches_loop (m # ms) endpoints =
     (case match_endpoint m of
        None \<Rightarrow> matches_loop ms endpoints
      | Some endpoint \<Rightarrow>
          if \<not> list_ex (\<lambda>ep. url ep = url endpoint \<and> http_method ep = http_method endpoint)
                 endpoints
          then matches_loop ms (endpoints @ [endpoint])
          else matches_loop ms endpoints)"

text \<open>
  \<^verbatim>\<open>_extract_api_endpoints\<close> on the matches of all patterns, in the order the two nested
  loops visit them; the result is sorted by path.
\<close>

definition extract_api_endpoints :: "regex_match list \<Rightarrow> APIEndpoint list" where
  "extract_api_endpoints ms = sort_key url (matches_loop ms [])"

text \<open>\<^verbatim>\<open>s.split(sep)\<close> for a separator of one character.\<close>

fun split_char :: "char \<Rightarrow> string \<Rightarrow> string list" where
  "split_char sep [] = [[]]"
| "split_char sep (c # cs) =
     (if c = sep then [] # split_char sep cs
      else (case split_char sep cs of
              [] \<Rightarrow> [[c]]
            | w # ws \<Rightarrow> (c # w) # ws))"

text \<open>
  The specification's reading of an accepted path, in its own words: some segment of the path
  is an API-like marker, that is \<^verbatim>\<open>api\<close>, \<^verbatim>\<open>rest\<close> or a version segment (\<^verbatim>\<open>v\<close>
  followed by digits).
\<close>

definition spec_marker_segment :: "string \<Rightarrow> bool" where
  "spec_marker_segment seg =
     (lower seg = ''api'' \<or> lower seg = ''rest''
      \<or> (case lower seg of
            c # ds \<Rightarrow> c = CHR ''v'' \<and> ds \<noteq> [] \<and> list_all isdigit ds
          | [] \<Rightarrow> False))"

definition spec_has_api_marker :: "string \<Rightarrow> bool" where
  "spec_has_api_marker path = list_ex spec_marker_segment (split_char CHR ''/'' path)"

section \<open>Structural extractor for Python sources (app/enhanced\_analyzer.py)\<close>

record EnhancedEndpoint =
  e_url :: string
  e_method :: HTTPMethod
  e_parameters :: "ParameterInfo list"
  e_request_body :: "json option"
  e_response_schema :: "json option"
  e_authentication_required :: bool
  e_description :: string
  e_tags :: "string list"
  e_framework :: string
  e_handler_function :: "string option"

text \<open>
  The loop of \<^verbatim>\<open>_analyze_python_file\<close> over the function definitions of the tree, in the
  order of \<^verbatim>\<open>ast.walk\<close>. Each element is what \<^verbatim>\<open>_analyze_python_function\<close> does on one
  definition: it raises, returns \<^verbatim>\<open>None\<close> (no route decorator) or returns an endpoint.
\<close>

fun walk_loop ::
  "(error + EnhancedEndpoint option) list \<Rightarrow> EnhancedEndpoint list \<Rightarrow>
   error + EnhancedEndpoint list" where
  "walk_loop [] endpoints = Inr endpoints"
| "walk_loop (Inl e # nodes) endpoints = Inl e"
| "walk_loop (Inr None # nodes) endpoints = walk_loop nodes endpoints"
| "walk_loop (Inr (Some endpoint) # nodes) endpoints = walk_loop nodes (endpoints @ [endpoint])"

text \<open>\<^verbatim>\<open>{ (ep.method, ep.url): ep for ep in endpoints }.values()\<close>.\<close>

definition unique_endpoints :: "EnhancedEndpoint list \<Rightarrow> EnhancedEndpoint list" where
  "unique_endpoints endpoints =
     map snd (foldl (\<lambda>d ep. dict_set d (e_method ep, e_url ep) ep) [] endpoints)"

text \<open>
  \<^verbatim>\<open>_analyze_python_file\<close> from the loop on: any exception inside the \<^verbatim>\<open>try\<close> block makes
  the file yield the empty list.
\<close>

definition analyze_python_file :: "(error + EnhancedEndpoint option) list \<Rightarrow> EnhancedEndpoint list" where
  "analyze_python_file nodes =
     (case walk_loop nodes [] of
        Inl e \<Rightarrow> []
      | Inr endpoints \<Rightarrow> unique_endpoints endpoints)"

text \<open>The endpoints of the decorated handlers, in traversal order.\<close>

fun routes :: "(error + EnhancedEndpoint option) list \<Rightarrow> EnhancedEndpoint list" where
  "routes [] = []"
| "routes (Inr (Some endpoint) # nodes) = endpoint # routes nodes"
| "routes (node # nodes) = routes nodes"

section \<open>Format parsers (app/json\_analyzer.py)\<close>

text \<open>
  Iterating over a JSON value with \<^verbatim>\<open>for\<close>: a list gives its elements, a dict its keys,
  a string its characters; anything else is not iterable.
\<close>

fun iter_items :: "json \<Rightarrow> error + json list" where
  "iter_items (JArr xs) = Inr xs"
| "iter_items (JObj d) = Inr (map (\<lambda>(k, v). JStr k) d)"
| "iter_items (JStr s) = Inr (map (\<lambda>c. JStr [c]) s)"
| "iter_items _ = Inl TypeError"

text \<open>The receiver of \<^verbatim>\<open>.get\<close> or \<^verbatim>\<open>.items()\<close>: only a dict has these attributes.\<close>

fun as_dict :: "json \<Rightarrow> error + (string \<times> json) list" where
  "as_dict (JObj d) = Inr d"
| "as_dict _ = Inl AttributeError"

text \<open>\<^verbatim>\<open>sub in s\<close> on strings.\<close>

fun contains :: "string \<Rightarrow> string \<Rightarrow> bool" where
  "contains sub [] = (sub = [])"
| "contains sub (c # cs) = (prefix sub (c # cs) \<or> contains sub cs)"

text \<open>
  \<^verbatim>\<open>s in x\<close> for a string \<open>s\<close>: an element of a list, a key of a dict, a substring of a
  string; \<^verbatim>\<open>TypeError\<close> on anything else.
\<close>

fun py_in :: "string \<Rightarrow> json \<Rightarrow> error + bool" where
  "py_in s (JArr xs) = Inr (JStr s \<in> set xs)"
| "py_in s (JObj d) = Inr (s \<in> set (map fst d))"
| "py_in s (JStr t) = Inr (contains s t)"
| "py_in s _ = Inl TypeError"

text \<open>
  \<^verbatim>\<open>re.findall(r'\{([^}]+)\}', path)\<close>: from each opening brace, the longest non-empty run
  of characters other than the closing brace, if a closing brace ends it; the search resumes
  after that closing brace, or at the next character when there is no match.
\<close>

function find_brace_params :: "string \<Rightarrow> string list" where
  "find_brace_params [] = []"
| "find_brace_params (c # cs) =
     (if c = CHR ''{'' \<and> takeWhile (\<lambda>x. x \<noteq> CHR ''}'') cs \<noteq> []
         \<and> dropWhile (\<lambda>x. x \<noteq> CHR ''}'') cs \<noteq> []
      then takeWhile (\<lambda>x. x \<noteq> CHR ''}'') cs
             # find_brace_params (tl (dropWhile (\<lambda>x. x \<noteq> CHR ''}'') cs))
      else find_brace_params cs)"
  by pat_completeness auto
termination
proof (relation "measure length")
  fix c :: char and cs :: string
  have "length (dropWhile (\<lambda>x. x \<noteq> CHR ''}'') cs) \<le> length cs"
    by (rule length_dropWhile_le)
  then show "(tl (dropWhile (\<lambda>x. x \<noteq> CHR ''}'') cs), c # cs) \<in> measure length"
    by simp
qed simp_all

text \<open>The dict stored for one parameter.\<close>

definition param_entry :: "string \<Rightarrow> json \<Rightarrow> json \<Rightarrow> json \<Rightarrow> json \<Rightarrow> json" where
  "param_entry param_name ty source required descr =
     JObj [(''name'', JStr param_name), (''type'', ty), (''source'', source),
           (''required'', required), (''description'', descr)]"

definition entry_source :: "json \<Rightarrow> json" where
  "entry_source v = (case v of JObj fs \<Rightarrow> dict_get fs ''source'' JNull | _ \<Rightarrow> JNull)"

text \<open>The two location tables, and \<^verbatim>\<open>source_map.get(param_in, "query")\<close>.\<close>

definition openapi_source_map :: "(string \<times> string) list" where
  "openapi_source_map =
     [(''query'', ''query''), (''path'', ''path''), (''header'', ''header''),
      (''cookie'', ''header'')]"

definition swagger_source_map :: "(string \<times> string) list" where
  "swagger_source_map =
     [(''query'', ''query''), (''path'', ''path''), (''header'', ''header''),
      (''formData'', ''body''), (''body'', ''body'')]"

fun source_lookup :: "(string \<times> string) list \<Rightarrow> json \<Rightarrow> error + string" where
  "source_lookup source_map (JStr s) = Inr (dict_get source_map s ''query'')"
| "source_lookup source_map (JArr x) = Inl TypeError"
| "source_lookup source_map (JObj x) = Inl TypeError"
| "source_lookup source_map _ = Inr ''query''"

text \<open>
  The body of the loop over the declared parameters. A missing, empty or otherwise falsy
  name skips the parameter. A name that is not a string cannot be a key of the endpoint's
  \<^verbatim>\<open>Dict[str, Any]\<close>; the model stops with an error at that parameter.
\<close>

definition openapi_param_entry :: "json \<Rightarrow> error + (string \<times> json) option" where
  "openapi_param_entry param =
     (case as_dict param of
        Inl e \<Rightarrow> Inl e
      | Inr p \<Rightarrow>
          (case dict_get p ''name'' JNull of
             JStr param_name \<Rightarrow>
               if param_name = [] then Inr None
               else
                 (case as_dict (dict_get p ''schema'' (JObj [])) of
                    Inl e \<Rightarrow> Inl e
                  | Inr schema \<Rightarrow>
                      (case source_lookup openapi_source_map (dict_get p ''in'' (JStr ''query'')) of
                         Inl e \<Rightarrow> Inl e
                       | Inr source \<Rightarrow>
                           Inr (Some (param_name,
                             param_entry param_name
                               (dict_get schema ''type'' (JStr ''string''))
                               (JStr source)
                               (dict_get p ''required'' (JBool False))
                               (dict_get p ''description'' (JStr (param_name @ '' parameter'')))))))
           | v \<Rightarrow> if truthy v then Inl ValidationError else Inr None))"

definition swagger_param_entry :: "json \<Rightarrow> error + (string \<times> json) option" where
  "swagger_param_entry param =
     (case as_dict param of
        Inl e \<Rightarrow> Inl e
      | Inr p \<Rightarrow>
          (case dict_get p ''name'' JNull of
             JStr param_name \<Rightarrow>
               if param_name = [] then Inr None
               else
                 (case source_lookup swagger_source_map (dict_get p ''in'' (JStr ''query'')) of
                    Inl e \<Rightarrow> Inl e
                  | Inr source \<Rightarrow>
                      Inr (Some (param_name,
                        param_entry param_name
                          (dict_get p ''type'' (JStr ''string''))
                          (JStr source)
                          (dict_get p ''required'' (JBool False))
                          (dict_get p ''description'' (JStr (param_name @ '' parameter''))))))
           | v \<Rightarrow> if truthy v then Inl ValidationError else Inr None))"

fun declared_loop ::
  "(json \<Rightarrow> error + (string \<times> json) option) \<Rightarrow> json list \<Rightarrow> (string \<times> json) list \<Rightarrow>
   error + (string \<times> json) list" where
  "declared_loop entry [] params = Inr params"
| "declared_loop entry (param # rest) params =
     (case entry param of
        Inl e \<Rightarrow> Inl e
      | Inr None \<Rightarrow> declared_loop entry rest params
      | Inr (Some (k, v)) \<Rightarrow> declared_loop entry rest (dict_set params k v))"

definition declared_params ::
  "(json \<Rightarrow> error + (string \<times> json) option) \<Rightarrow> (string \<times> json) list \<Rightarrow>
   error + (string \<times> json) list" where
  "declared_params entry method_data =
     (case iter_items (dict_get method_data ''parameters'' (JArr [])) of
        Inl e \<Rightarrow> Inl e
      | Inr params \<Rightarrow> declared_loop entry params [])"

text \<open>The placeholders of the path: added unless the name is already a key.\<close>

definition path_param :: "string \<Rightarrow> json" where
  "path_param param_name =
     param_entry param_name (JStr ''string'') (JStr ''path'') (JBool True)
       (JStr (param_name @ '' path parameter''))"

fun add_path_params :: "string list \<Rightarrow> (string \<times> json) list \<Rightarrow> (string \<times> json) list" where
  "add_path_params [] params = params"
| "add_path_params (param_name # rest) params =
     add_path_params rest
       (if param_name \<notin> set (map fst params)
        then dict_set params param_name (path_param param_name)
        else params)"

text \<open>
  The properties of the JSON request body, as the entries the source assigns one after the
  other. An exception anywhere discards the whole dictionary, so the entries can be collected
  first and assigned afterwards.
\<close>

fun properties_loop ::
  "(string \<times> json) list \<Rightarrow> (string \<times> json) list \<Rightarrow> error + (string \<times> json) list" where
  "properties_loop schema [] = Inr []"
| "properties_loop schema ((prop_name, prop_data) # rest) =
     (case as_dict prop_data of
        Inl e \<Rightarrow> Inl e
      | Inr pd \<Rightarrow>
          (case py_in prop_name (dict_get schema ''required'' (JArr [])) of
             Inl e \<Rightarrow> Inl e
           | Inr req \<Rightarrow>
               (case properties_loop schema rest of
                  Inl e \<Rightarrow> Inl e
                | Inr entries \<Rightarrow>
                    Inr ((prop_name,
                          param_entry prop_name (dict_get pd ''type'' (JStr ''string''))
                            (JStr ''body'') (JBool req)
                            (dict_get pd ''description'' (JStr (prop_name @ '' body parameter''))))
                         # entries))))"

fun content_loop :: "(string \<times> json) list \<Rightarrow> error + (string \<times> json) list" where
  "content_loop [] = Inr []"
| "content_loop ((content_type, content_data) # rest) =
     (if contains ''application/json'' content_type
      then
        (case as_dict content_data of
           Inl e \<Rightarrow> Inl e
         | Inr cd \<Rightarrow>
             (case as_dict (dict_get cd ''schema'' (JObj [])) of
                Inl e \<Rightarrow> Inl e
              | Inr schema \<Rightarrow>
                  (case as_dict (dict_get schema ''properties'' (JObj [])) of
                     Inl e \<Rightarrow> Inl e
                   | Inr properties \<Rightarrow>
                       (case properties_loop schema properties of
                          Inl e \<Rightarrow> Inl e
                        | Inr entries \<Rightarrow>
                            (case content_loop rest of
                               Inl e \<Rightarrow> Inl e
                             | Inr entries' \<Rightarrow> Inr (entries @ entries'))))))
      else content_loop rest)"

definition request_body_entries :: "(string \<times> json) list \<Rightarrow> error + (string \<times> json) list" where
  "request_body_entries method_data =
     (case map_of method_data ''requestBody'' of
        None \<Rightarrow> Inr []
      | Some req_body \<Rightarrow>
          (case as_dict req_body of
             Inl e \<Rightarrow> Inl e
           | Inr rb \<Rightarrow>
               (case as_dict (dict_get rb ''content'' (JObj [])) of
                  Inl e \<Rightarrow> Inl e
                | Inr content \<Rightarrow> content_loop content)))"

definition assign_all :: "(string \<times> json) list \<Rightarrow> (string \<times> json) list \<Rightarrow> (string \<times> json) list" where
  "assign_all params entries = foldl (\<lambda>d (k, v). dict_set d k v) params entries"

definition extract_openapi_parameters ::
  "(string \<times> json) list \<Rightarrow> string \<Rightarrow> error + (string \<times> json) list" where
  "extract_openapi_parameters method_data path =
     (case declared_params openapi_param_entry method_data of
        Inl e \<Rightarrow> Inl e
      | Inr declared \<Rightarrow>
          (case request_body_entries method_data of
             Inl e \<Rightarrow> Inl e
           | Inr entries \<Rightarrow>
               Inr (assign_all (add_path_params (find_brace_params path) declared) entries)))"

text \<open>\<^verbatim>\<open>_extract_swagger_parameters\<close> takes the path and does not use it.\<close>

definition extract_swagger_parameters ::
  "(string \<times> json) list \<Rightarrow> string \<Rightarrow> error + (string \<times> json) list" where
  "extract_swagger_parameters method_data path = declared_params swagger_param_entry method_data"

text \<open>
  Validation of the fields of \<^verbatim>\<open>APIEndpoint\<close> by the model class:
  \<^verbatim>\<open>description: Optional[str]\<close> and \<^verbatim>\<open>tags: List[str]\<close>, without coercion of other values.
\<close>

fun validate_description :: "json \<Rightarrow> error + string option" where
  "validate_description (JStr s) = Inr (Some s)"
| "validate_description JNull = Inr None"
| "validate_description _ = Inl ValidationError"

fun validate_str_list :: "json list \<Rightarrow> error + string list" where
  "validate_str_list [] = Inr []"
| "validate_str_list (JStr s # rest) =
     (case validate_str_list rest of Inl e \<Rightarrow> Inl e | Inr ss \<Rightarrow> Inr (s # ss))"
| "validate_str_list (_ # rest) = Inl ValidationError"

fun validate_tags :: "json \<Rightarrow> error + string list" where
  "validate_tags (JArr xs) = validate_str_list xs"
| "validate_tags _ = Inl ValidationError"

definition make_endpoint ::
  "string \<Rightarrow> HTTPMethod \<Rightarrow> json \<Rightarrow> (string \<times> json) list \<Rightarrow> json \<Rightarrow> error + APIEndpoint" where
  "make_endpoint path m descr params tgs =
     (case validate_description descr of
        Inl e \<Rightarrow> Inl e
      | Inr d \<Rightarrow>
          (case validate_tags tgs of
             Inl e \<Rightarrow> Inl e
           | Inr ts \<Rightarrow>
               Inr \<lparr>url = path, http_method = m, description = d,
                     parameters = Some (map (\<lambda>(k, v). (k, PJson v)) params),
                     request_body = None, response_schema = None,
                     authentication_required = False, tags = ts\<rparr>))"

text \<open>
  The endpoint loops of \<^verbatim>\<open>_parse_openapi_spec\<close> and \<^verbatim>\<open>_parse_swagger_spec\<close>, which differ
  in the parameter extractor only. \<^verbatim>\<open>HEAD\<close> and \<^verbatim>\<open>OPTIONS\<close> pass the first test and fail
  the conversion to \<^verbatim>\<open>HTTPMethod\<close>.
\<close>

definition operation_endpoint ::
  "((string \<times> json) list \<Rightarrow> string \<Rightarrow> error + (string \<times> json) list) \<Rightarrow>
   string \<Rightarrow> string \<Rightarrow> json \<Rightarrow> error + APIEndpoint option" where
  "operation_endpoint extract path method_name method_data =
     (if upper method_name \<notin> set [''GET'', ''POST'', ''PUT'', ''DELETE'', ''PATCH'', ''HEAD'', ''OPTIONS'']
      then Inr None
      else
        (case http_method_of (upper method_name) of
           None \<Rightarrow> Inr None
         | Some m \<Rightarrow>
             (case as_dict method_data of
                Inl e \<Rightarrow> Inl e
              | Inr md \<Rightarrow>
                  (case extract md path of
                     Inl e \<Rightarrow> Inl e
                   | Inr params \<Rightarrow>
                       (case make_endpoint path m
                               (dict_get md ''summary'' (dict_get md ''description'' (JStr [])))
                               params (dict_get md ''tags'' (JArr [])) of
                          Inl e \<Rightarrow> Inl e
                        | Inr endpoint \<Rightarrow> Inr (Some endpoint))))))"

fun methods_loop ::
  "((string \<times> json) list \<Rightarrow> string \<Rightarrow> error + (string \<times> json) list) \<Rightarrow>
   string \<Rightarrow> (string \<times> json) list \<Rightarrow> error + APIEndpoint list" where
  "methods_loop extract path [] = Inr []"
| "methods_loop extract path ((method_name, method_data) # rest) =
     (case operation_endpoint extract path method_name method_data of
        Inl e \<Rightarrow> Inl e
      | Inr r \<Rightarrow>
          (case methods_loop extract path rest of
             Inl e \<Rightarrow> Inl e
           | Inr endpoints \<Rightarrow>
               Inr (case r of None \<Rightarrow> endpoints | Some endpoint \<Rightarrow> endpoint # endpoints)))"

fun paths_loop ::
  "((string \<times> json) list \<Rightarrow> string \<Rightarrow> error + (string \<times> json) list) \<Rightarrow>
   (string \<times> json) list \<Rightarrow> error + APIEndpoint list" where
  "paths_loop extract [] = Inr []"
| "paths_loop extract ((path, JObj path_data) # rest) =
     (case methods_loop extract path path_data of
        Inl e \<Rightarrow> Inl e
      | Inr endpoints \<Rightarrow>
          (case paths_loop extract rest of
             Inl e \<Rightarrow> Inl e
           | Inr endpoints' \<Rightarrow> Inr (endpoints @ endpoints')))"
| "paths_loop extract ((path, _) # rest) = paths_loop extract rest"

definition spec_endpoints ::
  "((string \<times> json) list \<Rightarrow> string \<Rightarrow> error + (string \<times> json) list) \<Rightarrow>
   (string \<times> json) list \<Rightarrow> error + APIEndpoint list" where
  "spec_endpoints extract json_data =
     (case as_dict (dict_get json_data ''paths'' (JObj [])) of
        Inl e \<Rightarrow> Inl e
      | Inr paths \<Rightarrow> paths_loop extract paths)"

definition openapi_endpoints :: "(string \<times> json) list \<Rightarrow> error + APIEndpoint list" where
  "openapi_endpoints json_data = spec_endpoints extract_openapi_parameters json_data"

definition swagger_endpoints :: "(string \<times> json) list \<Rightarrow> error + APIEndpoint list" where
  "swagger_endpoints json_data = spec_endpoints extract_swagger_parameters json_data"

text \<open>\<^verbatim>\<open>_extract_custom_parameters\<close>: no error is possible, and the path is not looked at.\<close>

fun custom_param :: "string \<Rightarrow> json \<Rightarrow> json" where
  "custom_param param_name (JObj info) =
     param_entry param_name (dict_get info ''type'' (JStr ''string''))
       (dict_get info ''in'' (dict_get info ''source'' (JStr ''query'')))
       (dict_get info ''required'' (JBool False))
       (dict_get info ''description'' (JStr (param_name @ '' parameter'')))"
| "custom_param param_name _ =
     param_entry param_name (JStr ''string'') (JStr ''query'') (JBool False)
       (JStr (param_name @ '' parameter''))"

definition extract_custom_parameters :: "(string \<times> json) list \<Rightarrow> (string \<times> json) list" where
  "extract_custom_parameters item =
     foldl (\<lambda>params source.
              case map_of item source of
                Some (JObj param_data) \<Rightarrow>
                  foldl (\<lambda>d (param_name, param_info).
                           dict_set d param_name (custom_param param_name param_info))
                    params param_data
              | _ \<Rightarrow> params)
       [] [''parameters'', ''params'', ''args'', ''fields'']"

text \<open>
  The body of the loop of \<^verbatim>\<open>_parse_custom_endpoints\<close>: \<open>Inr None\<close> for an item the loop
  skips, an error where \<^verbatim>\<open>.upper()\<close> or \<^verbatim>\<open>.startswith\<close> meets a value that is no string.
\<close>

definition custom_item_endpoint :: "json \<Rightarrow> error + APIEndpoint option" where
  "custom_item_endpoint item =
     (case item of
        JObj it \<Rightarrow>
          (case dict_get it ''method'' (dict_get it ''httpMethod'' (JStr ''GET'')) of
             JStr method_str \<Rightarrow>
               (case http_method_of (upper method_str) of
                  None \<Rightarrow> Inr None
                | Some m \<Rightarrow>
                    (case dict_get it ''path'' (dict_get it ''url'' (dict_get it ''route'' (JStr ''/''))) of
                       JStr p \<Rightarrow>
                         (case make_endpoint (if prefix ''/'' p then p else ''/'' @ p) m
                                 (dict_get it ''description''
                                    (dict_get it ''summary'' (dict_get it ''name'' (JStr []))))
                                 (extract_custom_parameters it)
                                 (case dict_get it ''tags'' (JArr []) of
                                    JStr t \<Rightarrow> JArr [JStr t]
                                  | v \<Rightarrow> v) of
                            Inl e \<Rightarrow> Inl e
                          | Inr endpoint \<Rightarrow> Inr (Some endpoint))
                     | _ \<Rightarrow> Inl AttributeError))
           | _ \<Rightarrow> Inl AttributeError)
      | _ \<Rightarrow> Inr None)"

fun custom_loop :: "json list \<Rightarrow> error + APIEndpoint list" where
  "custom_loop [] = Inr []"
| "custom_loop (item # rest) =
     (case custom_item_endpoint item of
        Inl e \<Rightarrow> Inl e
      | Inr r \<Rightarrow>
          (case custom_loop rest of
             Inl e \<Rightarrow> Inl e
           | Inr endpoints \<Rightarrow>
               Inr (case r of None \<Rightarrow> endpoints | Some endpoint \<Rightarrow> endpoint # endpoints)))"

datatype AuthType = NONE | BASIC | BEARER | API_KEY | OAUTH | SESSION

record AuthenticationInfo =
  a_type :: AuthType
  a_endpoints :: "string list"
  a_parameters :: "(string \<times> json) list option"
  a_headers :: "(string \<times> string) list option"

record APIDiscovery =
  d_base_url :: string
  d_endpoints :: "APIEndpoint list"
  d_authentication :: "AuthenticationInfo option"
  d_schemas :: "(string \<times> json) list"

definition custom_auth_type_map :: "(string \<times> AuthType) list" where
  "custom_auth_type_map =
     [(''bearer'', BEARER), (''basic'', BASIC), (''apikey'', API_KEY), (''api_key'', API_KEY),
      (''oauth'', OAUTH), (''oauth2'', OAUTH)]"

definition parse_custom_auth :: "json \<Rightarrow> error + AuthenticationInfo" where
  "parse_custom_auth auth_data =
     (case as_dict auth_data of
        Inl e \<Rightarrow> Inl e
      | Inr ad \<Rightarrow>
          (case dict_get ad ''type'' (JStr []) of
             JStr auth_type_str \<Rightarrow>
               Inr \<lparr>a_type = dict_get custom_auth_type_map (lower auth_type_str) BEARER,
                     a_endpoints = [], a_parameters = Some ad, a_headers = None\<rparr>
           | _ \<Rightarrow> Inl AttributeError))"

text \<open>
  \<^verbatim>\<open>_parse_custom_endpoints\<close>. After the loop the base URL is read with
  \<^verbatim>\<open>json_data.get\<close>, whatever the type of \<^verbatim>\<open>json_data\<close>.
\<close>

definition custom_discovery :: "(string \<times> json) list \<Rightarrow> APIEndpoint list \<Rightarrow> error + APIDiscovery" where
  "custom_discovery d endpoints =
     (case (if ''auth'' \<in> set (map fst d) \<or> ''authentication'' \<in> set (map fst d)
            then (case parse_custom_auth
                         (dict_get d ''auth'' (dict_get d ''authentication'' (JObj []))) of
                    Inl e \<Rightarrow> Inl e
                  | Inr a \<Rightarrow> Inr (Some a))
            else Inr None) of
        Inl e \<Rightarrow> Inl e
      | Inr auth_info \<Rightarrow>
          (case dict_get d ''baseUrl'' (dict_get d ''host'' (JStr ''https://api.example.com'')) of
             JStr base_url \<Rightarrow>
               (case dict_get d ''schemas'' (JObj []) of
                  JObj schemas \<Rightarrow>
                    Inr \<lparr>d_base_url = base_url, d_endpoints = endpoints,
                          d_authentication = auth_info, d_schemas = schemas\<rparr>
                | _ \<Rightarrow> Inl ValidationError)
           | _ \<Rightarrow> Inl ValidationError))"

fun parse_custom_endpoints :: "json \<Rightarrow> error + APIDiscovery" where
  "parse_custom_endpoints (JArr items) =
     (case custom_loop items of
        Inl e \<Rightarrow> Inl e
      | Inr endpoints \<Rightarrow> Inl AttributeError)"
| "parse_custom_endpoints (JObj d) =
     (case iter_items
             (if ''endpoints'' \<in> set (map fst d) then dict_get d ''endpoints'' JNull
              else if ''apis'' \<in> set (map fst d) then dict_get d ''apis'' JNull
              else if ''routes'' \<in> set (map fst d) then dict_get d ''routes'' JNull
              else JArr []) of
        Inl e \<Rightarrow> Inl e
      | Inr items \<Rightarrow>
          (case custom_loop items of
             Inl e \<Rightarrow> Inl e
           | Inr endpoints \<Rightarrow> custom_discovery d endpoints))"
| "parse_custom_endpoints (JStr s) =
     (if contains ''endpoints'' s \<or> contains ''apis'' s \<or> contains ''routes'' s
      then Inl TypeError else Inl AttributeError)"
| "parse_custom_endpoints _ = Inl TypeError"

text \<open>
  \<^verbatim>\<open>_detect_json_format\<close>. Each test is an \<^verbatim>\<open>and\<close>/\<^verbatim>\<open>or\<close> chain that stops at the first
  operand deciding it; \<^verbatim>\<open>.get\<close> on a list or a string raises \<^verbatim>\<open>AttributeError\<close>,
  \<^verbatim>\<open>json_data["resources"]\<close> on them \<^verbatim>\<open>TypeError\<close>.
\<close>

fun and_then :: "error + bool \<Rightarrow> error + bool \<Rightarrow> error + bool" where
  "and_then (Inl e) y = Inl e"
| "and_then (Inr False) y = Inr False"
| "and_then (Inr True) y = y"

fun or_else :: "error + bool \<Rightarrow> error + bool \<Rightarrow> error + bool" where
  "or_else (Inl e) y = Inl e"
| "or_else (Inr True) y = Inr True"
| "or_else (Inr False) y = y"

definition is_openapi :: "json \<Rightarrow> error + bool" where
  "is_openapi json_data =
     and_then (py_in ''openapi'' json_data)
       (case as_dict json_data of
          Inl e \<Rightarrow> Inl e
        | Inr d \<Rightarrow>
            (case dict_get d ''openapi'' (JStr []) of
               JStr v \<Rightarrow> Inr (prefix ''3.'' v)
             | _ \<Rightarrow> Inl AttributeError))"

definition is_swagger :: "json \<Rightarrow> error + bool" where
  "is_swagger json_data =
     and_then (py_in ''swagger'' json_data)
       (case as_dict json_data of
          Inl e \<Rightarrow> Inl e
        | Inr d \<Rightarrow> Inr (dict_get d ''swagger'' JNull = JStr ''2.0''))"

definition is_postman :: "json \<Rightarrow> error + bool" where
  "is_postman json_data =
     and_then (py_in ''info'' json_data)
       (and_then (py_in ''item'' json_data)
          (case as_dict json_data of
             Inl e \<Rightarrow> Inl e
           | Inr d \<Rightarrow>
               (case as_dict (dict_get d ''info'' (JObj [])) of
                  Inl e \<Rightarrow> Inl e
                | Inr info \<Rightarrow> Inr (truthy (dict_get info ''schema'' JNull)))))"

definition is_insomnia :: "json \<Rightarrow> error + bool" where
  "is_insomnia json_data =
     and_then (py_in ''resources'' json_data)
       (case json_data of
          JObj d \<Rightarrow> Inr (case dict_get d ''resources'' JNull of JArr x \<Rightarrow> True | _ \<Rightarrow> False)
        | _ \<Rightarrow> Inl TypeError)"

definition has_custom_key :: "json \<Rightarrow> error + bool" where
  "has_custom_key json_data =
     or_else (py_in ''endpoints'' json_data)
       (or_else (py_in ''apis'' json_data) (py_in ''routes'' json_data))"

fun is_endpoint_list :: "json \<Rightarrow> error + bool" where
  "is_endpoint_list (JArr (JObj first_item # rest)) =
     Inr (''path'' \<in> set (map fst first_item) \<or> ''url'' \<in> set (map fst first_item)
          \<or> ''method'' \<in> set (map fst first_item))"
| "is_endpoint_list _ = Inr False"

fun detect_chain :: "((error + bool) \<times> string) list \<Rightarrow> error + string" where
  "detect_chain [] = Inr ''generic''"
| "detect_chain ((Inl e, fmt) # rest) = Inl e"
| "detect_chain ((Inr True, fmt) # rest) = Inr fmt"
| "detect_chain ((Inr False, fmt) # rest) = detect_chain rest"

definition detect_json_format :: "json \<Rightarrow> error + string" where
  "detect_json_format json_data =
     detect_chain
       [(is_openapi json_data, ''openapi''),
        (is_swagger json_data, ''swagger''),
        (is_postman json_data, ''postman''),
        (is_insomnia json_data, ''insomnia''),
        (has_custom_key json_data, ''custom_endpoints''),
        (is_endpoint_list json_data, ''custom_endpoints'')]"

text \<open>
  The specification's consistency of a record, in its own words: every placeholder token
  of the path has an entry in the parameters mapping (a mapping has at most one entry per
  name), and that entry has \<^verbatim>\<open>source = path\<close>.
\<close>

definition spec_placeholders_consistent :: "APIEndpoint \<Rightarrow> bool" where
  "spec_placeholders_consistent endpoint =
     list_all
       (\<lambda>n. case map_of (param_items endpoint) n of
               Some (PJson v) \<Rightarrow> entry_source v = JStr ''path''
             | _ \<Rightarrow> False)
       (find_brace_params (url endpoint))"

text \<open>
  \<^verbatim>\<open>re.findall(r':([a-zA-Z_][a-zA-Z0-9_]*)', url_path)\<close>: after a colon that is followed by a
  letter or an underscore, the longest run of letters, digits and underscores; the search
  resumes behind that run.
\<close>

function find_colon_params :: "string \<Rightarrow> string list" where
  "find_colon_params [] = []"
| "find_colon_params (c # cs) =
     (if c = CHR '':'' \<and> (case cs of [] \<Rightarrow> False | d # ds \<Rightarrow> ident_start d)
      then takeWhile ident_char cs # find_colon_params (dropWhile ident_char cs)
      else find_colon_params cs)"
  by pat_completeness auto
termination
proof (relation "measure length")
  fix c :: char and cs :: string
  have "length (dropWhile ident_char cs) \<le> length cs"
    by (rule length_dropWhile_le)
  then show "(dropWhile ident_char cs, c # cs) \<in> measure length"
    by simp
qed simp_all

text \<open>
  The names a loop over \<open>params\<close> assigns, in order, and the entries of the placeholders
  found in a path, as the collection parsers assign them (without the test for an existing
  key that the OpenAPI parser makes).
\<close>

fun stored_names :: "(json \<Rightarrow> error + (string \<times> json) option) \<Rightarrow> json list \<Rightarrow> string list" where
  "stored_names entry [] = []"
| "stored_names entry (param # rest) =
     (case entry param of
        Inr (Some (k, v)) \<Rightarrow> k # stored_names entry rest
      | _ \<Rightarrow> stored_names entry rest)"

definition path_entries :: "string list \<Rightarrow> (string \<times> json) list" where
  "path_entries names = map (\<lambda>n. (n, path_param n)) names"

definition body_param :: "string \<Rightarrow> json" where
  "body_param k =
     param_entry k (JStr ''string'') (JStr ''body'') (JBool True) (JStr (k @ '' body parameter''))"

text \<open>
  \<^verbatim>\<open>_extract_postman_parameters\<close>: query parameters of a structured URL, the colon
  placeholders of the path, the headers other than \<^verbatim>\<open>Content-Type\<close> and \<^verbatim>\<open>Accept\<close>, and
  the keys of a raw JSON body, each stage assigning over the ones before. \<^verbatim>\<open>json.loads\<close> is
  a parameter of the model: \<open>None\<close> stands for \<^verbatim>\<open>JSONDecodeError\<close>, which the source
  catches. A name that is no string ends in an error, as in the OpenAPI loop.
\<close>

definition postman_query_entry :: "json \<Rightarrow> error + (string \<times> json) option" where
  "postman_query_entry param =
     (case param of
        JObj p \<Rightarrow>
          (case dict_get p ''key'' JNull of
             JStr param_name \<Rightarrow>
               if param_name = [] then Inr None
               else Inr (Some (param_name,
                      param_entry param_name (JStr ''string'') (JStr ''query'')
                        (JBool (\<not> truthy (dict_get p ''disabled'' (JBool False))))
                        (dict_get p ''description'' (JStr (param_name @ '' query parameter'')))))
           | v \<Rightarrow> if truthy v then Inl ValidationError else Inr None)
      | _ \<Rightarrow> Inr None)"

definition postman_header_entry :: "json \<Rightarrow> error + (string \<times> json) option" where
  "postman_header_entry header =
     (case header of
        JObj h \<Rightarrow>
          (case dict_get h ''key'' JNull of
             JStr header_name \<Rightarrow>
               if header_name \<noteq> [] \<and> lower header_name \<notin> set [''content-type'', ''accept'']
               then Inr (Some (header_name,
                      param_entry header_name (JStr ''string'') (JStr ''header'')
                        (JBool (\<not> truthy (dict_get h ''disabled'' (JBool False))))
                        (dict_get h ''description'' (JStr (header_name @ '' header'')))))
               else Inr None
           | v \<Rightarrow> if truthy v then Inl AttributeError else Inr None)
      | _ \<Rightarrow> Inr None)"

definition postman_query_params :: "(string \<times> json) list \<Rightarrow> error + json list" where
  "postman_query_params request =
     (case dict_get request ''url'' (JObj []) of
        JObj url_data \<Rightarrow> iter_items (dict_get url_data ''query'' (JArr []))
      | _ \<Rightarrow> Inr [])"

definition postman_body_entries ::
  "(string \<Rightarrow> json option) \<Rightarrow> (string \<times> json) list \<Rightarrow> error + (string \<times> json) list" where
  "postman_body_entries loads request =
     (case as_dict (dict_get request ''body'' (JObj [])) of
        Inl e \<Rightarrow> Inl e
      | Inr body \<Rightarrow>
          if dict_get body ''mode'' JNull = JStr ''raw''
          then
            (case dict_get body ''raw'' (JStr []) of
               JStr raw_body \<Rightarrow>
                 if raw_body = [] then Inr []
                 else (case loads raw_body of
                         Some (JObj body_data) \<Rightarrow> Inr (map (\<lambda>(k, v). (k, body_param k)) body_data)
                       | _ \<Rightarrow> Inr [])
             | v \<Rightarrow> if truthy v then Inl TypeError else Inr [])
          else Inr [])"

definition extract_postman_parameters ::
  "(string \<Rightarrow> json option) \<Rightarrow> (string \<times> json) list \<Rightarrow> string \<Rightarrow> error + (string \<times> json) list" where
  "extract_postman_parameters loads request url_path =
     (case postman_query_params request of
        Inl e \<Rightarrow> Inl e
      | Inr query_params \<Rightarrow>
          (case declared_loop postman_query_entry query_params [] of
             Inl e \<Rightarrow> Inl e
           | Inr queried \<Rightarrow>
               (case iter_items (dict_get request ''header'' (JArr [])) of
                  Inl e \<Rightarrow> Inl e
                | Inr headers \<Rightarrow>
                    (case declared_loop postman_header_entry headers
                            (assign_all queried (path_entries (find_colon_params url_path))) of
                       Inl e \<Rightarrow> Inl e
                     | Inr with_headers \<Rightarrow>
                         (case postman_body_entries loads request of
                            Inl e \<Rightarrow> Inl e
                          | Inr entries \<Rightarrow> Inr (assign_all with_headers entries))))))"

text \<open>
  The names that the header loop and the body loop of a request assign (none where the
  request makes the extraction raise).
\<close>

definition postman_header_names :: "(string \<times> json) list \<Rightarrow> string list" where
  "postman_header_names request =
     (case iter_items (dict_get request ''header'' (JArr [])) of
        Inl e \<Rightarrow> []
      | Inr headers \<Rightarrow> stored_names postman_header_entry headers)"

definition postman_body_names :: "(string \<Rightarrow> json option) \<Rightarrow> (string \<times> json) list \<Rightarrow> string list" where
  "postman_body_names loads request =
     (case postman_body_entries loads request of Inl e \<Rightarrow> [] | Inr entries \<Rightarrow> map fst entries)"

text \<open>
  The record that one item (a dict) of the loop of \<^verbatim>\<open>_parse_postman_items\<close> yields
  itself: none for a folder (an item with an \<^verbatim>\<open>item\<close> key, whose children the recursive
  call visits) and none for an item without a \<^verbatim>\<open>request\<close> key.
  \<^verbatim>\<open>"/".join(path_parts)\<close> needs an iterable of strings.
\<close>

fun str_items :: "json list \<Rightarrow> string list option" where
  "str_items [] = Some []"
| "str_items (JStr s # rest) = (case str_items rest of None \<Rightarrow> None | Some ss \<Rightarrow> Some (s # ss))"
| "str_items (_ # rest) = None"

definition join_parts :: "json \<Rightarrow> error + string" where
  "join_parts path_parts =
     (case iter_items path_parts of
        Inl e \<Rightarrow> Inl TypeError
      | Inr xs \<Rightarrow> (case str_items xs of None \<Rightarrow> Inl TypeError | Some ss \<Rightarrow> Inr (join ''/'' ss)))"

definition postman_url_path :: "(string \<times> json) list \<Rightarrow> error + string" where
  "postman_url_path request =
     (case (case dict_get request ''url'' (JObj []) of
              JStr s \<Rightarrow> Inr s
            | JObj url_data \<Rightarrow>
                if truthy (dict_get url_data ''path'' (JArr []))
                then (case join_parts (dict_get url_data ''path'' (JArr [])) of
                        Inl e \<Rightarrow> Inl e
                      | Inr p \<Rightarrow> Inr (''/'' @ p))
                else Inr ''/''
            | _ \<Rightarrow> Inr ''/'') of
        Inl e \<Rightarrow> Inl e
      | Inr url_path \<Rightarrow> Inr (if prefix ''/'' url_path then url_path else ''/'' @ url_path))"

definition py_or :: "json \<Rightarrow> json \<Rightarrow> json" where
  "py_or a b = (if truthy a then a else b)"

definition postman_request_endpoint ::
  "(string \<Rightarrow> json option) \<Rightarrow> string \<Rightarrow> (string \<times> json) list \<Rightarrow> error + APIEndpoint option" where
  "postman_request_endpoint loads folder_path item =
     (if ''item'' \<in> set (map fst item) \<or> ''request'' \<notin> set (map fst item) then Inr None
      else case as_dict (dict_get item ''request'' JNull) of
        Inl e \<Rightarrow> Inl e
      | Inr request \<Rightarrow>
          (case dict_get request ''method'' (JStr ''GET'') of
             JStr method_str \<Rightarrow>
               (case http_method_of (upper method_str) of
                  None \<Rightarrow> Inr None
                | Some m \<Rightarrow>
                    (case postman_url_path request of
                       Inl e \<Rightarrow> Inl e
                     | Inr url_path \<Rightarrow>
                         (case extract_postman_parameters loads request url_path of
                            Inl e \<Rightarrow> Inl e
                          | Inr params \<Rightarrow>
                              (case make_endpoint url_path m
                                      (py_or (dict_get item ''name'' (JStr []))
                                         (dict_get request ''description'' (JStr [])))
                                      params
                                      (JArr (map JStr
                                         (filter (\<lambda>tag. tag \<noteq> [])
                                            (if folder_path = [] then []
                                             else split_char CHR ''/'' folder_path)))) of
                                 Inl e \<Rightarrow> Inl e
                               | Inr endpoint \<Rightarrow> Inr (Some endpoint)))))
           | _ \<Rightarrow> Inl AttributeError))"

text \<open>
  \<^verbatim>\<open>_extract_insomnia_parameters\<close>: the resource's query parameters, the brace placeholders
  of the path, then the headers.
\<close>

definition insomnia_param_entry :: "json \<Rightarrow> error + (string \<times> json) option" where
  "insomnia_param_entry param =
     (case as_dict param of
        Inl e \<Rightarrow> Inl e
      | Inr p \<Rightarrow>
          (case dict_get p ''name'' JNull of
             JStr param_name \<Rightarrow>
               if param_name = [] then Inr None
               else Inr (Some (param_name,
                      param_entry param_name (JStr ''string'') (JStr ''query'')
                        (JBool (\<not> truthy (dict_get p ''disabled'' (JBool False))))
                        (JStr (param_name @ '' query parameter''))))
           | v \<Rightarrow> if truthy v then Inl ValidationError else Inr None))"

definition insomnia_header_entry :: "json \<Rightarrow> error + (string \<times> json) option" where
  "insomnia_header_entry header =
     (case as_dict header of
        Inl e \<Rightarrow> Inl e
      | Inr h \<Rightarrow>
          (case dict_get h ''name'' JNull of
             JStr header_name \<Rightarrow>
               if header_name \<noteq> [] \<and> lower header_name \<notin> set [''content-type'', ''accept'']
               then Inr (Some (header_name,
                      param_entry header_name (JStr ''string'') (JStr ''header'')
                        (JBool (\<not> truthy (dict_get h ''disabled'' (JBool False))))
                        (JStr (header_name @ '' header''))))
               else Inr None
           | v \<Rightarrow> if truthy v then Inl AttributeError else Inr None))"

definition extract_insomnia_parameters ::
  "(string \<times> json) list \<Rightarrow> string \<Rightarrow> error + (string \<times> json) list" where
  "extract_insomnia_parameters resource url_path =
     (case iter_items (dict_get resource ''parameters'' (JArr [])) of
        Inl e \<Rightarrow> Inl e
      | Inr params \<Rightarrow>
          (case declared_loop insomnia_param_entry params [] of
             Inl e \<Rightarrow> Inl e
           | Inr queried \<Rightarrow>
               (case iter_items (dict_get resource ''headers'' (JArr [])) of
                  Inl e \<Rightarrow> Inl e
                | Inr headers \<Rightarrow>
                    declared_loop insomnia_header_entry headers
                      (assign_all queried (path_entries (find_brace_params url_path))))))"

definition insomnia_header_names :: "(string \<times> json) list \<Rightarrow> string list" where
  "insomnia_header_names resource =
     (case iter_items (dict_get resource ''headers'' (JArr [])) of
        Inl e \<Rightarrow> []
      | Inr headers \<Rightarrow> stored_names insomnia_header_entry headers)"

text \<open>
  The body of the loop of \<^verbatim>\<open>_parse_insomnia_collection\<close> over the resources: the path is
  what remains of the URL without its environment variables or its scheme and host.
\<close>

definition insomnia_url_path :: "string \<Rightarrow> string" where
  "insomnia_url_path u =
     (if prefix ''{{'' u
      then ''/'' @ join ''/'' (filter (\<lambda>part. \<not> prefix ''{{'' part) (split_char CHR ''/'' u))
      else (let url_path = replace (replace u ''https://'' []) ''http://'' []
            in if CHR ''/'' \<in> set url_path
               then ''/'' @ join ''/'' (tl (split_char CHR ''/'' url_path))
               else ''/''))"

definition insomnia_resource_endpoint :: "json \<Rightarrow> error + APIEndpoint option" where
  "insomnia_resource_endpoint resource =
     (case as_dict resource of
        Inl e \<Rightarrow> Inl e
      | Inr r \<Rightarrow>
          if dict_get r ''_type'' JNull \<noteq> JStr ''request'' then Inr None
          else
            (case dict_get r ''method'' (JStr ''GET'') of
               JStr method_str \<Rightarrow>
                 (case http_method_of (upper method_str) of
                    None \<Rightarrow> Inr None
                  | Some m \<Rightarrow>
                      (case dict_get r ''url'' (JStr []) of
                         JStr u \<Rightarrow>
                           (case extract_insomnia_parameters r (insomnia_url_path u) of
                              Inl e \<Rightarrow> Inl e
                            | Inr params \<Rightarrow>
                                (case make_endpoint (insomnia_url_path u) m
                                        (py_or (dict_get r ''name'' (JStr []))
                                           (dict_get r ''description'' (JStr [])))
                                        params (JArr []) of
                                   Inl e \<Rightarrow> Inl e
                                 | Inr endpoint \<Rightarrow> Inr (Some endpoint)))
                       | _ \<Rightarrow> Inl AttributeError))
             | _ \<Rightarrow> Inl AttributeError))"

text \<open>
  The specification's consistency of a record of a collection export: as
  \<open>spec_placeholders_consistent\<close>, for the colon-prefixed placeholders.
\<close>

definition spec_colon_placeholders_consistent :: "APIEndpoint \<Rightarrow> bool" where
  "spec_colon_placeholders_consistent endpoint =
     list_all
       (\<lambda>n. case map_of (param_items endpoint) n of
               Some (PJson v) \<Rightarrow> entry_source v = JStr ''path''
             | _ \<Rightarrow> False)
       (find_colon_params (url endpoint))"

section \<open>Proofs: merge and deduplication\<close>

lemma method_value_no_colon: "CHR '':'' \<notin> set (method_value m)"
  by (cases m) simp_all

lemma method_value_inj: "method_value m = method_value m' \<Longrightarrow> m = m'"
  by (cases m; cases m') simp_all

lemma colon_split_unique:
  assumes "u @ CHR '':'' # v = u' @ CHR '':'' # v'"
    and "CHR '':'' \<notin> set v" and "CHR '':'' \<notin> set v'"
  shows "u = u' \<and> v = v'"
  using assms
proof (induction u arbitrary: u')
  case Nil
  then show ?case by (cases u') auto
next
  case (Cons a u)
  then show ?case by (cases u') auto
qed

lemma endpoint_key_eq_iff:
  "endpoint_key e = endpoint_key e' \<longleftrightarrow> http_method e = http_method e' \<and> url e = url e'"
proof
  assume "endpoint_key e = endpoint_key e'"
  then have "url e @ CHR '':'' # method_value (http_method e)
      = url e' @ CHR '':'' # method_value (http_method e')"
    by (simp add: endpoint_key_def)
  from colon_split_unique [OF this method_value_no_colon method_value_no_colon]
  show "http_method e = http_method e' \<and> url e = url e'"
    by (auto dest: method_value_inj)
next
  assume "http_method e = http_method e' \<and> url e = url e'"
  then show "endpoint_key e = endpoint_key e'" by (simp add: endpoint_key_def)
qed

lemma dedup_loop_unique: "dedup_loop seen unique es = unique @ dedup_loop seen [] es"
proof (induction es arbitrary: seen unique)
  case Nil
  show ?case by simp
next
  case (Cons e es)
  show ?case
    using Cons.IH [of "insert (endpoint_key e) seen" "unique @ [e]"]
      Cons.IH [of "insert (endpoint_key e) seen" "[e]"] Cons.IH [of seen unique]
    by (simp add: Let_def)
qed

lemma dedup_loop_Cons:
  "dedup_loop seen [] (e # es) =
     (if endpoint_key e \<in> seen then dedup_loop seen [] es
      else e # dedup_loop (insert (endpoint_key e) seen) [] es)"
  using dedup_loop_unique [of "insert (endpoint_key e) seen" "[e]" es]
  by (simp add: Let_def)

lemma dedup_loop_keys_fresh:
  "endpoint_key ` set (dedup_loop seen [] es) \<inter> seen = {}"
proof (induction es arbitrary: seen)
  case Nil
  show ?case by simp
next
  case (Cons e es)
  show ?case
    using Cons.IH [of seen] Cons.IH [of "insert (endpoint_key e) seen"]
    by (auto simp: dedup_loop_Cons simp del: dedup_loop.simps(2))
qed

lemma dedup_loop_filter:
  "filter (\<lambda>e. endpoint_key e = k) (dedup_loop seen [] es) =
     (if k \<in> seen then []
      else case find (\<lambda>e. endpoint_key e = k) es of None \<Rightarrow> [] | Some e \<Rightarrow> [e])"
proof (induction es arbitrary: seen)
  case Nil
  show ?case by simp
next
  case (Cons e es)
  show ?case
    using Cons.IH [of seen] Cons.IH [of "insert (endpoint_key e) seen"]
    by (auto simp: dedup_loop_Cons simp del: dedup_loop.simps(2))
qed

lemma dedup_loop_subseq: "subseq (dedup_loop seen [] es) es"
proof (induction es arbitrary: seen)
  case Nil
  show ?case by simp
next
  case (Cons e es)
  show ?case
    using Cons.IH [of seen] Cons.IH [of "insert (endpoint_key e) seen"]
    by (auto simp: dedup_loop_Cons simp del: dedup_loop.simps(2))
qed

lemma dedup_loop_idem:
  "dedup_loop seen [] (dedup_loop seen [] es) = dedup_loop seen [] es"
proof (induction es arbitrary: seen)
  case Nil
  show ?case by simp
next
  case (Cons e es)
  show ?case
    using Cons.IH [of seen] Cons.IH [of "insert (endpoint_key e) seen"]
    by (simp add: dedup_loop_Cons del: dedup_loop.simps(2))
qed

lemma dedup_loop_insert:
  "endpoint_key x \<in> seen \<union> endpoint_key ` set es \<Longrightarrow>
   dedup_loop seen [] (es @ x # rest) = dedup_loop seen [] (es @ rest)"
proof (induction es arbitrary: seen)
  case Nil
  then show ?case by (simp add: dedup_loop_Cons del: dedup_loop.simps(2))
next
  case (Cons e es)
  show ?case
    using Cons.prems Cons.IH [of seen] Cons.IH [of "insert (endpoint_key e) seen"]
    by (auto simp: dedup_loop_Cons simp del: dedup_loop.simps(2))
qed

lemma deduplicate_filter:
  "filter (\<lambda>e. http_method e = m \<and> url e = p) (deduplicate_endpoints es) =
     (case find (\<lambda>e. http_method e = m \<and> url e = p) es of None \<Rightarrow> [] | Some e \<Rightarrow> [e])"
proof -
  define e0 :: APIEndpoint where
    "e0 = \<lparr>url = p, http_method = m, description = None, parameters = None,
            request_body = None, response_schema = None, authentication_required = False,
            tags = []\<rparr>"
  have pred: "(\<lambda>e. http_method e = m \<and> url e = p) = (\<lambda>e. endpoint_key e = endpoint_key e0)"
    using endpoint_key_eq_iff [of _ e0] by (simp add: e0_def)
  show ?thesis
    unfolding pred deduplicate_endpoints_def by (simp add: dedup_loop_filter)
qed

text \<open>
  C1. Merging keeps, for every (method, path) pair, exactly the first record of the input
  that carries the pair and nothing else with that pair; the output is a subsequence of the
  input, so a later duplicate is dropped whole. With two records for (GET, /users) that carry
  the descriptions A and B, in this order, the output is the record with description A alone.
\<close>

theorem deduplicate_first_seen_wins:
  "filter (\<lambda>e. http_method e = m \<and> url e = p) (deduplicate_endpoints es) =
     (case find (\<lambda>e. http_method e = m \<and> url e = p) es of None \<Rightarrow> [] | Some e \<Rightarrow> [e])
   \<and> subseq (deduplicate_endpoints es) es
   \<and> deduplicate_endpoints
         [a\<lparr>url := ''/users'', http_method := GET, description := Some ''A''\<rparr>,
          b\<lparr>url := ''/users'', http_method := GET, description := Some ''B''\<rparr>]
       = [a\<lparr>url := ''/users'', http_method := GET, description := Some ''A''\<rparr>]"
proof -
  have first: "filter (\<lambda>e. http_method e = m \<and> url e = p) (deduplicate_endpoints es) =
     (case find (\<lambda>e. http_method e = m \<and> url e = p) es of None \<Rightarrow> [] | Some e \<Rightarrow> [e])"
    by (rule deduplicate_filter)
  have sub: "subseq (deduplicate_endpoints es) es"
    by (simp add: deduplicate_endpoints_def dedup_loop_subseq)
  have scen: "deduplicate_endpoints
         [a\<lparr>url := ''/users'', http_method := GET, description := Some ''A''\<rparr>,
          b\<lparr>url := ''/users'', http_method := GET, description := Some ''B''\<rparr>]
       = [a\<lparr>url := ''/users'', http_method := GET, description := Some ''A''\<rparr>]"
    by (simp add: deduplicate_endpoints_def endpoint_key_def)
  from first sub scen show ?thesis by blast
qed

text \<open>
  C5. Merging is idempotent: merging a merged list changes nothing, and a list extended with
  an exact copy of one of its records (appended, or put anywhere behind the list that
  contains the record) merges to the same result (equal as lists, hence as sets).
\<close>

theorem deduplicate_idempotent:
  "deduplicate_endpoints (deduplicate_endpoints es) = deduplicate_endpoints es
   \<and> (x \<in> set es \<longrightarrow> deduplicate_endpoints (es @ [x]) = deduplicate_endpoints es)
   \<and> (x \<in> set es \<longrightarrow>
        deduplicate_endpoints (es @ x # rest) = deduplicate_endpoints (es @ rest))"
  using dedup_loop_insert [of x "{}" es rest] dedup_loop_insert [of x "{}" es "[]"]
  by (simp add: deduplicate_endpoints_def dedup_loop_idem)

theorem deduplicate_idempotent_witness:
  "\<lparr>url = ''/users'', http_method = GET, description = Some ''A'', parameters = None,
     request_body = None, response_schema = None, authentication_required = False,
     tags = []\<rparr>
     \<in> set [\<lparr>url = ''/users'', http_method = GET, description = Some ''A'', parameters = None,
               request_body = None, response_schema = None, authentication_required = False,
               tags = []\<rparr>,
             \<lparr>url = ''/orders'', http_method = POST, description = None, parameters = None,
               request_body = None, response_schema = None, authentication_required = False,
               tags = []\<rparr>]
   \<and> deduplicate_endpoints
        ([\<lparr>url = ''/users'', http_method = GET, description = Some ''A'', parameters = None,
            request_body = None, response_schema = None, authentication_required = False,
            tags = []\<rparr>,
          \<lparr>url = ''/orders'', http_method = POST, description = None, parameters = None,
            request_body = None, response_schema = None, authentication_required = False,
            tags = []\<rparr>]
         @ [\<lparr>url = ''/users'', http_method = GET, description = Some ''A'', parameters = None,
              request_body = None, response_schema = None, authentication_required = False,
              tags = []\<rparr>])
     = deduplicate_endpoints
        [\<lparr>url = ''/users'', http_method = GET, description = Some ''A'', parameters = None,
           request_body = None, response_schema = None, authentication_required = False,
           tags = []\<rparr>,
         \<lparr>url = ''/orders'', http_method = POST, description = None, parameters = None,
           request_body = None, response_schema = None, authentication_required = False,
           tags = []\<rparr>]"
  using deduplicate_idempotent
    [of "[\<lparr>url = ''/users'', http_method = GET, description = Some ''A'', parameters = None,
            request_body = None, response_schema = None, authentication_required = False,
            tags = []\<rparr>,
          \<lparr>url = ''/orders'', http_method = POST, description = None, parameters = None,
            request_body = None, response_schema = None, authentication_required = False,
            tags = []\<rparr>]"
        "\<lparr>url = ''/users'', http_method = GET, description = Some ''A'', parameters = None,
           request_body = None, response_schema = None, authentication_required = False,
           tags = []\<rparr>"]
  by simp

section \<open>Proofs: tool generator\<close>

lemmas char_defs =
  lower_def lower_char_def upper_def upper_char_def isdigit_def isalpha_def
  ascii_uppercase_def ascii_lowercase_def digits_def

text \<open>
  C3. The replacement chain does not cover every character outside letters, digits and the
  underscore: a space in the path reaches the tool name, which then is no identifier.
\<close>

theorem tool_name_keeps_space:
  "tool_name \<lparr>url = ''/users list'', http_method = GET, description = None, parameters = None,
      request_body = None, response_schema = None, authentication_required = False,
      tags = []\<rparr> = ''get_users list''
   \<and> \<not> valid_identifier
        (tool_name \<lparr>url = ''/users list'', http_method = GET, description = None,
           parameters = None, request_body = None, response_schema = None,
           authentication_required = False, tags = []\<rparr>)"
  by (simp add: tool_name_def clean_url_def name_replacements_def char_defs rstrip_def
      ident_start_def ident_char_def)


lemma replace_same_aux: "new = old \<Longrightarrow> replace s old new = s"
proof (induction s old new rule: replace.induct)
  case (1 old new)
  then show ?case by simp
next
  case (2 c cs old new)
  show ?case
  proof (cases "old = []")
    case True
    with 2 show ?thesis by simp
  next
    case False
    show ?thesis
    proof (cases "prefix old (c # cs)")
      case True
      then obtain zs where zs: "c # cs = old @ zs" by (auto simp: prefix_def)
      have d: "drop (length old) (c # cs) = zs" by (simp add: zs)
      have step: "replace (c # cs) old new = new @ replace (drop (length old) (c # cs)) old new"
        using False True by simp
      have "replace (drop (length old) (c # cs)) old new = drop (length old) (c # cs)"
        using 2(2) [OF False True] 2(4) by simp
      then have "replace (c # cs) old new = new @ zs"
        by (simp only: step d)
      then show ?thesis using zs 2(4) by simp
    next
      case pf: False
      with 2(3) 2(4) False show ?thesis by simp
    qed
  qed
qed

lemma replace_same: "replace s old old = s"
  by (rule replace_same_aux) simp

lemma url_loop_id: "url_loop ps t = Inr t' \<Longrightarrow> t' = t"
  by (induction ps arbitrary: t) (auto simp: replace_same split: sum.splits if_splits)

lemma dict_param_source: "dict_param i \<Longrightarrow> \<exists>src. get_source i = Inr src"
  by (induction i rule: dict_param.induct) auto

lemma dict_param_type: "dict_param i \<Longrightarrow> \<exists>ty. python_type (param_type i) = Inr ty"
proof (induction i rule: dict_param.induct)
  case (1 d)
  then show ?case by (cases "dict_get d ''type'' (JStr ''str'')") auto
qed auto

lemma url_loop_total: "list_all (\<lambda>(n, i). dict_param i) ps \<Longrightarrow> url_loop ps t = Inr t"
proof (induction ps arbitrary: t)
  case Nil show ?case by simp
next
  case (Cons p ps)
  then show ?case using dict_param_source [of "snd p"]
    by (cases p) (auto simp: replace_same)
qed

lemma body_params_total:
  "list_all (\<lambda>(n, i). dict_param i) ps \<Longrightarrow> \<exists>bs. body_params_of ps = Inr bs"
proof (induction ps)
  case Nil show ?case by simp
next
  case (Cons p ps)
  then show ?case using dict_param_source [of "snd p"]
    by (cases p) auto
qed

lemma params_loop_total:
  "list_all (\<lambda>(n, i). dict_param i) ps \<Longrightarrow> \<exists>r. params_loop ps acc = Inr r"
proof (induction ps arbitrary: acc)
  case Nil show ?case by simp
next
  case (Cons p ps)
  obtain n i where p: "p = (n, i)" by (cases p)
  obtain req opt where acc: "acc = (req, opt)" by (cases acc)
  from Cons.prems p obtain ty where ty: "python_type (param_type i) = Inr ty"
    using dict_param_type [of i] by auto
  from Cons.prems have rest: "list_all (\<lambda>(n, i). dict_param i) ps" by simp
  show ?case using Cons.IH [OF rest] p acc ty by simp
qed

lemma generate_fastmcp_tool_total:
  assumes "list_all (\<lambda>(n, i). dict_param i) (param_items ep)"
  shows "\<exists>t. generate_fastmcp_tool ep b = Inr t \<and>
     t_url_construction t = ''url = f'' @ [CHR 0x22] @ url_base_of b @ url ep @ [CHR 0x22]"
proof -
  from params_loop_total [OF assms] obtain r where "params_loop (param_items ep) ([], []) = Inr r"
    by blast
  then obtain fps where fps: "func_params ep = Inr fps"
    by (cases r) (simp add: func_params_def)
  from body_params_total [OF assms] obtain bs where bs: "body_params_of (param_items ep) = Inr bs"
    by blast
  show ?thesis
    using fps bs url_loop_total [OF assms, of "url ep"]
    by (simp add: generate_fastmcp_tool_def Let_def)
qed




lemma generate_tools_total:
  "\<forall>endpoint \<in> set endpoints. list_all (\<lambda>(n, i). dict_param i) (param_items endpoint) \<Longrightarrow>
   \<exists>tools. generate_tools endpoints b = Inr tools
     \<and> map t_url_construction tools
       = map (\<lambda>endpoint. ''url = f'' @ [CHR 0x22] @ url_base_of b @ url endpoint @ [CHR 0x22])
           endpoints"
proof (induction endpoints)
  case Nil
  show ?case by simp
next
  case (Cons endpoint rest)
  from Cons.prems have "list_all (\<lambda>(n, i). dict_param i) (param_items endpoint)" by simp
  from generate_fastmcp_tool_total [OF this, of b] obtain t where
    t: "generate_fastmcp_tool endpoint b = Inr t"
      "t_url_construction t = ''url = f'' @ [CHR 0x22] @ url_base_of b @ url endpoint @ [CHR 0x22]"
    by blast
  from Cons.prems have "\<forall>endpoint \<in> set rest. list_all (\<lambda>(n, i). dict_param i) (param_items endpoint)"
    by simp
  from Cons.IH [OF this] obtain tools where
    tools: "generate_tools rest b = Inr tools"
      "map t_url_construction tools
       = map (\<lambda>endpoint. ''url = f'' @ [CHR 0x22] @ url_base_of b @ url endpoint @ [CHR 0x22]) rest"
    by blast
  from t tools show ?case by simp
qed

lemma python_type_error: "python_type ty = Inl e \<Longrightarrow> e = TypeError"
  by (cases ty) auto

lemma params_loop_error: "params_loop ps acc = Inl e \<Longrightarrow> e = TypeError"
proof (induction ps arbitrary: acc)
  case Nil
  then show ?case by simp
next
  case (Cons p ps)
  obtain n i where p: "p = (n, i)" by (cases p)
  obtain req opt where acc: "acc = (req, opt)" by (cases acc)
  from Cons.prems p acc show ?case
    by (auto split: sum.splits if_splits dest: python_type_error Cons.IH)
qed

lemma not_dict_param_source:
  "python_type (param_type i) = Inr ty \<Longrightarrow> \<not> dict_param i \<Longrightarrow>
   get_source i = Inl AttributeError"
proof (induction i rule: dict_param.induct)
  case (1 d)
  then show ?case by (cases "dict_get d ''type'' (JStr ''str'')") auto
qed auto

lemma url_loop_fails:
  "params_loop ps acc = Inr r \<Longrightarrow> \<not> list_all (\<lambda>(n, i). dict_param i) ps \<Longrightarrow>
   url_loop ps t = Inl AttributeError"
proof (induction ps arbitrary: acc t)
  case Nil
  then show ?case by simp
next
  case (Cons p ps)
  obtain n i where p: "p = (n, i)" by (cases p)
  obtain req opt where acc: "acc = (req, opt)" by (cases acc)
  from Cons.prems(1) p acc obtain ty acc' where
    ty: "python_type (param_type i) = Inr ty" and rest: "params_loop ps acc' = Inr r"
    by (auto split: sum.splits if_splits)
  show ?case
  proof (cases "dict_param i")
    case True
    with Cons.prems(2) p have "\<not> list_all (\<lambda>(n, i). dict_param i) ps" by simp
    from Cons.IH [OF rest this] True p dict_param_source [OF True] show ?thesis
      by auto
  next
    case False
    from not_dict_param_source [OF ty False] p show ?thesis by simp
  qed
qed

lemma generate_fastmcp_tool_fails:
  assumes "\<not> list_all (\<lambda>(n, i). dict_param i) (param_items ep)"
  shows "generate_fastmcp_tool ep b = Inl TypeError \<or> generate_fastmcp_tool ep b = Inl AttributeError"
proof (cases "params_loop (param_items ep) ([], [])")
  case (Inl e)
  then have "e = TypeError" by (rule params_loop_error)
  with Inl show ?thesis by (simp add: generate_fastmcp_tool_def func_params_def)
next
  case (Inr r)
  from url_loop_fails [OF Inr assms, of "url ep"] Inr show ?thesis
    by (cases r) (simp add: generate_fastmcp_tool_def func_params_def)
qed

lemma generate_tools_fails:
  "\<not> (\<forall>endpoint \<in> set endpoints. list_all (\<lambda>(n, i). dict_param i) (param_items endpoint)) \<Longrightarrow>
   generate_tools endpoints b = Inl TypeError \<or> generate_tools endpoints b = Inl AttributeError"
proof (induction endpoints)
  case Nil
  then show ?case by simp
next
  case (Cons endpoint rest)
  show ?case
  proof (cases "list_all (\<lambda>(n, i). dict_param i) (param_items endpoint)")
    case False
    from generate_fastmcp_tool_fails [OF False, of b] show ?thesis by auto
  next
    case True
    with Cons.prems have "\<not> (\<forall>endpoint \<in> set rest. list_all (\<lambda>(n, i). dict_param i) (param_items endpoint))"
      by simp
    from Cons.IH [OF this] generate_fastmcp_tool_total [OF True, of b] show ?thesis
      by auto
  qed
qed

text \<open>
  C6, as the code has it. Path construction replaces each \<^verbatim>\<open>{name}\<close> by itself, so the
  URL template is the endpoint's path unchanged and no error is raised for a placeholder
  without a path-sourced parameter. A batch yields one tool per endpoint, each with its path
  verbatim, when every parameter value of every endpoint is a dict whose \<^verbatim>\<open>type\<close>, if
  present, is hashable; in every other case the whole batch ends in \<^verbatim>\<open>TypeError\<close> (a
  list or dict as the type) or \<^verbatim>\<open>AttributeError\<close> (a parameter value that is no dict),
  whatever the placeholders are.
\<close>

theorem generate_tools_keeps_placeholders:
  "((\<forall>endpoint \<in> set endpoints. list_all (\<lambda>(n, i). dict_param i) (param_items endpoint)) \<longrightarrow>
     (\<exists>tools. generate_tools endpoints b = Inr tools
       \<and> map t_url_construction tools
         = map (\<lambda>endpoint. ''url = f'' @ [CHR 0x22] @ url_base_of b @ url endpoint @ [CHR 0x22])
             endpoints))
   \<and> (\<not> (\<forall>endpoint \<in> set failing. list_all (\<lambda>(n, i). dict_param i) (param_items endpoint)) \<longrightarrow>
     generate_tools failing b = Inl TypeError \<or> generate_tools failing b = Inl AttributeError)"
  using generate_tools_total [of endpoints b] generate_tools_fails [of failing b]
  by blast

theorem generate_tools_keeps_placeholders_witness:
  "list_all (\<lambda>(n, i). dict_param i)
     (param_items
        \<lparr>url = ''/users/{id}'', http_method = GET, description = None, parameters = None,
          request_body = None, response_schema = None, authentication_required = False,
          tags = []\<rparr>)
   \<and> list_all (\<lambda>(n, i). dict_param i)
     (param_items
        \<lparr>url = ''/orders'', http_method = POST, description = None,
          parameters = Some [(''qty'', PJson (JObj [(''source'', JStr ''body'')]))],
          request_body = None, response_schema = None, authentication_required = False,
          tags = []\<rparr>)
   \<and> (\<exists>tools. generate_tools
       [\<lparr>url = ''/users/{id}'', http_method = GET, description = None, parameters = None,
          request_body = None, response_schema = None, authentication_required = False,
          tags = []\<rparr>,
        \<lparr>url = ''/orders'', http_method = POST, description = None,
          parameters = Some [(''qty'', PJson (JObj [(''source'', JStr ''body'')]))],
          request_body = None, response_schema = None, authentication_required = False,
          tags = []\<rparr>] None = Inr tools
     \<and> map t_url_construction tools
       = [''url = f'' @ [CHR 0x22] @ ''BASE_URL/users/{id}'' @ [CHR 0x22],
          ''url = f'' @ [CHR 0x22] @ ''BASE_URL/orders'' @ [CHR 0x22]])
   \<and> \<not> list_all (\<lambda>(n, i). dict_param i)
     (param_items
        \<lparr>url = ''/items/{id}'', http_method = GET, description = None,
          parameters = Some [(''a'', PJson (JObj [(''type'', JArr [JStr ''string'', JStr ''null''])]))],
          request_body = None, response_schema = None, authentication_required = False,
          tags = []\<rparr>)
   \<and> generate_tools
       [\<lparr>url = ''/users/{id}'', http_method = GET, description = None, parameters = None,
          request_body = None, response_schema = None, authentication_required = False,
          tags = []\<rparr>,
        \<lparr>url = ''/items/{id}'', http_method = GET, description = None,
          parameters = Some [(''a'', PJson (JObj [(''type'', JArr [JStr ''string'', JStr ''null''])]))],
          request_body = None, response_schema = None, authentication_required = False,
          tags = []\<rparr>] None = Inl TypeError"
proof -
  have h: "\<forall>endpoint \<in> set
       [\<lparr>url = ''/users/{id}'', http_method = GET, description = None, parameters = None,
          request_body = None, response_schema = None, authentication_required = False,
          tags = []\<rparr>,
        \<lparr>url = ''/orders'', http_method = POST, description = None,
          parameters = Some [(''qty'', PJson (JObj [(''source'', JStr ''body'')]))],
          request_body = None, response_schema = None, authentication_required = False,
          tags = []\<rparr>].
      list_all (\<lambda>(n, i). dict_param i) (param_items endpoint)"
    by (simp add: param_items_def dict_get_def)
  have n: "\<not> list_all (\<lambda>(n, i). dict_param i)
     (param_items
        \<lparr>url = ''/items/{id}'', http_method = GET, description = None,
          parameters = Some [(''a'', PJson (JObj [(''type'', JArr [JStr ''string'', JStr ''null''])]))],
          request_body = None, response_schema = None, authentication_required = False,
          tags = []\<rparr>)"
    by (simp add: param_items_def dict_get_def)
  have f: "generate_fastmcp_tool
        \<lparr>url = ''/items/{id}'', http_method = GET, description = None,
          parameters = Some [(''a'', PJson (JObj [(''type'', JArr [JStr ''string'', JStr ''null''])]))],
          request_body = None, response_schema = None, authentication_required = False,
          tags = []\<rparr> None = Inl TypeError"
    by (simp add: generate_fastmcp_tool_def func_params_def param_items_def dict_get_def)
  have g: "\<exists>t. generate_fastmcp_tool
        \<lparr>url = ''/users/{id}'', http_method = GET, description = None, parameters = None,
          request_body = None, response_schema = None, authentication_required = False,
          tags = []\<rparr> None = Inr t"
    using generate_fastmcp_tool_total [of "\<lparr>url = ''/users/{id}'', http_method = GET, description = None, parameters = None,
          request_body = None, response_schema = None, authentication_required = False,
          tags = []\<rparr>" None]
    by (auto simp: param_items_def)
  from g f have r: "generate_tools
       [\<lparr>url = ''/users/{id}'', http_method = GET, description = None, parameters = None,
          request_body = None, response_schema = None, authentication_required = False,
          tags = []\<rparr>,
        \<lparr>url = ''/items/{id}'', http_method = GET, description = None,
          parameters = Some [(''a'', PJson (JObj [(''type'', JArr [JStr ''string'', JStr ''null''])]))],
          request_body = None, response_schema = None, authentication_required = False,
          tags = []\<rparr>] None = Inl TypeError"
    by auto
  from generate_tools_keeps_placeholders
    [of "[\<lparr>url = ''/users/{id}'', http_method = GET, description = None, parameters = None,
          request_body = None, response_schema = None, authentication_required = False,
          tags = []\<rparr>,
        \<lparr>url = ''/orders'', http_method = POST, description = None,
          parameters = Some [(''qty'', PJson (JObj [(''source'', JStr ''body'')]))],
          request_body = None, response_schema = None, authentication_required = False,
          tags = []\<rparr>]" None
        "[\<lparr>url = ''/users/{id}'', http_method = GET, description = None, parameters = None,
          request_body = None, response_schema = None, authentication_required = False,
          tags = []\<rparr>,
        \<lparr>url = ''/items/{id}'', http_method = GET, description = None,
          parameters = Some [(''a'', PJson (JObj [(''type'', JArr [JStr ''string'', JStr ''null''])]))],
          request_body = None, response_schema = None, authentication_required = False,
          tags = []\<rparr>]"] h
  obtain tools where
    "generate_tools
       [\<lparr>url = ''/users/{id}'', http_method = GET, description = None, parameters = None,
          request_body = None, response_schema = None, authentication_required = False,
          tags = []\<rparr>,
        \<lparr>url = ''/orders'', http_method = POST, description = None,
          parameters = Some [(''qty'', PJson (JObj [(''source'', JStr ''body'')]))],
          request_body = None, response_schema = None, authentication_required = False,
          tags = []\<rparr>] None = Inr tools"
    "map t_url_construction tools
       = [''url = f'' @ [CHR 0x22] @ ''BASE_URL/users/{id}'' @ [CHR 0x22],
          ''url = f'' @ [CHR 0x22] @ ''BASE_URL/orders'' @ [CHR 0x22]]"
    by (auto simp: url_base_of_def)
  with h n r show ?thesis by auto
qed

text \<open>
  C6, as the specification states it, fails: the endpoint \<^verbatim>\<open>GET /users/{id}\<close> without any
  parameter is generated without error, its placeholder still in the URL template.
\<close>

theorem unresolved_placeholder_generated:
  "generate_fastmcp_tool
     \<lparr>url = ''/users/{id}'', http_method = GET, description = None, parameters = None,
        request_body = None, response_schema = None, authentication_required = False,
        tags = []\<rparr> None
   = Inr \<lparr>t_name = ''get_users_id'',
          t_signature = ''headers: Dict[str, str] = None'',
          t_url_construction = ''url = f'' @ [CHR 0x22] @ ''BASE_URL/users/{id}'' @ [CHR 0x22],
          t_data_prep_lines = [],
          t_method_call = ''return asyncio.run(make_request('' @ [CHR 0x22] @ ''GET''
             @ [CHR 0x22] @ '', url, None, headers))''\<rparr>"
  by (simp add: generate_fastmcp_tool_def func_params_def param_items_def headers_entry_def
      url_base_of_def tool_name_def clean_url_def name_replacements_def char_defs rstrip_def)

section \<open>Proofs: document pattern extractor\<close>

lemmas pdf_defs =
  extract_api_endpoints_def match_endpoint_def strip_def rstrip_def whitespace_def
  http_method_of_def is_valid_api_path_def ends_with_file_extension_def file_extensions_def
  suffix_to_prefix

lemma match_endpoint_valid: "match_endpoint m = Some e \<Longrightarrow> is_valid_api_path (url e)"
  by (auto simp: match_endpoint_def Let_def split: list.splits option.splits if_splits)

lemma is_valid_api_path_shape:
  "is_valid_api_path p \<Longrightarrow> prefix ''/'' p \<and> 2 \<le> length p \<and> length p \<le> 200"
  by (auto simp: is_valid_api_path_def split: if_splits)

lemma matches_loop_origin:
  "e \<in> set (matches_loop ms acc) \<Longrightarrow> e \<in> set acc \<or> (\<exists>m \<in> set ms. match_endpoint m = Some e)"
proof (induction ms arbitrary: acc)
  case Nil
  then show ?case by simp
next
  case (Cons m ms)
  then show ?case
    by (fastforce split: option.splits if_splits)
qed

lemma matches_loop_mono: "set acc \<subseteq> set (matches_loop ms acc)"
proof (induction ms arbitrary: acc)
  case Nil
  show ?case by simp
next
  case (Cons m ms)
  show ?case
    using Cons.IH [of acc] Cons.IH [of "acc @ [the (match_endpoint m)]"]
    by (auto split: option.splits)
qed

lemma matches_loop_covers:
  "m \<in> set ms \<Longrightarrow> match_endpoint m = Some e' \<Longrightarrow>
   \<exists>e \<in> set (matches_loop ms acc). url e = url e' \<and> http_method e = http_method e'"
proof (induction ms arbitrary: acc)
  case Nil
  then show ?case by simp
next
  case (Cons x ms)
  show ?case
  proof (cases "m = x")
    case True
    show ?thesis
    proof (cases "list_ex (\<lambda>ep. url ep = url e' \<and> http_method ep = http_method e') acc")
      case True
      then obtain e where "e \<in> set acc" "url e = url e'" "http_method e = http_method e'"
        by (auto simp: list_ex_iff)
      moreover have "set acc \<subseteq> set (matches_loop (x # ms) acc)" by (rule matches_loop_mono)
      ultimately show ?thesis by blast
    next
      case False
      have "e' \<in> set (acc @ [e'])" by simp
      then have "e' \<in> set (matches_loop ms (acc @ [e']))"
        using matches_loop_mono [of "acc @ [e']" ms] by blast
      then show ?thesis using \<open>m = x\<close> Cons.prems(2) False by auto
    qed
  next
    case False
    with Cons.prems have "m \<in> set ms" by simp
    from Cons.IH [OF this Cons.prems(2)] show ?thesis
      by (auto split: option.splits)
  qed
qed


text \<open>
  C9, as the code has it. A record is emitted exactly for the matches that pass the method
  check and \<^verbatim>\<open>_is_valid_api_path\<close>: every emitted path starts with a slash, has 2 to 200
  characters and passes the validator's exclusions (file extensions, static directories);
  and every match that passes is represented in the output under its (method, path). No
  marker segment is asked for.
\<close>

theorem extracted_paths_pass_validator:
  "(e \<in> set (extract_api_endpoints ms) \<longrightarrow>
      (\<exists>m \<in> set ms. match_endpoint m = Some e) \<and> is_valid_api_path (url e)
      \<and> prefix ''/'' (url e) \<and> 2 \<le> length (url e) \<and> length (url e) \<le> 200)
   \<and> (m \<in> set ms \<and> match_endpoint m = Some e' \<longrightarrow>
      (\<exists>e \<in> set (extract_api_endpoints ms). url e = url e' \<and> http_method e = http_method e'))"
proof (intro conjI impI)
  assume "e \<in> set (extract_api_endpoints ms)"
  then have "e \<in> set (matches_loop ms [])" by (simp add: extract_api_endpoints_def)
  from matches_loop_origin [OF this] show m: "\<exists>m \<in> set ms. match_endpoint m = Some e" by simp
  then show v: "is_valid_api_path (url e)" by (auto dest: match_endpoint_valid)
  from is_valid_api_path_shape [OF v]
  show "prefix ''/'' (url e)" "2 \<le> length (url e)" "length (url e) \<le> 200" by simp_all
next
  assume "m \<in> set ms \<and> match_endpoint m = Some e'"
  then show "\<exists>e \<in> set (extract_api_endpoints ms). url e = url e' \<and> http_method e = http_method e'"
    using matches_loop_covers [of m ms e' "[]"] by (simp add: extract_api_endpoints_def)
qed

lemma match_endpoint_users:
  "match_endpoint \<lparr>m_groups = [''GET'', ''/users''], m_parameters = [], m_description = None,
       m_tags = []\<rparr> = Some \<lparr>url = ''/users'', http_method = GET, description = None, parameters = Some [],
       request_body = None, response_schema = None, authentication_required = False,
       tags = []\<rparr>"
  by (simp add: pdf_defs char_defs)

lemma extract_users:
  "extract_api_endpoints [\<lparr>m_groups = [''GET'', ''/users''], m_parameters = [], m_description = None,
       m_tags = []\<rparr>] = [\<lparr>url = ''/users'', http_method = GET, description = None, parameters = Some [],
       request_body = None, response_schema = None, authentication_required = False,
       tags = []\<rparr>]"
  by (simp add: extract_api_endpoints_def match_endpoint_users)

theorem extracted_paths_pass_validator_witness:
  "\<lparr>url = ''/users'', http_method = GET, description = None, parameters = Some [],
       request_body = None, response_schema = None, authentication_required = False,
       tags = []\<rparr> \<in> set (extract_api_endpoints [\<lparr>m_groups = [''GET'', ''/users''], m_parameters = [], m_description = None,
       m_tags = []\<rparr>])
   \<and> \<lparr>m_groups = [''GET'', ''/users''], m_parameters = [], m_description = None,
       m_tags = []\<rparr> \<in> set [\<lparr>m_groups = [''GET'', ''/users''], m_parameters = [], m_description = None,
       m_tags = []\<rparr>]
   \<and> match_endpoint \<lparr>m_groups = [''GET'', ''/users''], m_parameters = [], m_description = None,
       m_tags = []\<rparr> = Some \<lparr>url = ''/users'', http_method = GET, description = None, parameters = Some [],
       request_body = None, response_schema = None, authentication_required = False,
       tags = []\<rparr>
   \<and> is_valid_api_path ''/users''
   \<and> (\<exists>e \<in> set (extract_api_endpoints [\<lparr>m_groups = [''GET'', ''/users''], m_parameters = [], m_description = None,
       m_tags = []\<rparr>]). url e = ''/users'' \<and> http_method e = GET)"
  using extracted_paths_pass_validator
    [of "\<lparr>url = ''/users'', http_method = GET, description = None, parameters = Some [],
       request_body = None, response_schema = None, authentication_required = False,
       tags = []\<rparr>" "[\<lparr>m_groups = [''GET'', ''/users''], m_parameters = [], m_description = None,
       m_tags = []\<rparr>]" "\<lparr>m_groups = [''GET'', ''/users''], m_parameters = [], m_description = None,
       m_tags = []\<rparr>" "\<lparr>url = ''/users'', http_method = GET, description = None, parameters = Some [],
       request_body = None, response_schema = None, authentication_required = False,
       tags = []\<rparr>"]
  by (simp add: extract_users match_endpoint_users)

text \<open>
  C9, as the specification states it, fails: the match \<^verbatim>\<open>GET /users\<close> yields a record,
  though no segment of \<^verbatim>\<open>/users\<close> is an API-like marker.
\<close>

theorem users_path_accepted:
  "extract_api_endpoints [\<lparr>m_groups = [''GET'', ''/users''], m_parameters = [], m_description = None,
       m_tags = []\<rparr>] = [\<lparr>url = ''/users'', http_method = GET, description = None, parameters = Some [],
       request_body = None, response_schema = None, authentication_required = False,
       tags = []\<rparr>]
   \<and> \<not> spec_has_api_marker ''/users''"
  by (simp add: extract_users spec_has_api_marker_def spec_marker_segment_def char_defs)

section \<open>Proofs: structural extractor for Python sources\<close>

lemma dict_set_keys: "set (map fst (dict_set d k v)) = insert k (set (map fst d))"
  by (induction d k v rule: dict_set.induct) auto

lemma dict_set_distinct: "distinct (map fst d) \<Longrightarrow> distinct (map fst (dict_set d k v))"
proof (induction d k v rule: dict_set.induct)
  case (1 k v)
  show ?case by simp
next
  case (2 k' v' d k v)
  then show ?case using dict_set_keys [of d k v] by auto
qed

lemma map_of_dict_set: "map_of (dict_set d k v) = (map_of d)(k \<mapsto> v)"
  by (induction d k v rule: dict_set.induct) auto

lemma dict_set_entries: "set (dict_set d k v) \<subseteq> insert (k, v) (set d)"
  by (induction d k v rule: dict_set.induct) auto

lemma find_snoc:
  "find P (xs @ [a]) = (case find P xs of Some e \<Rightarrow> Some e | None \<Rightarrow> if P a then Some a else None)"
  by (induction xs) auto

lemma endpoint_dict_lookup:
  "map_of (foldl (\<lambda>d ep. dict_set d (e_method ep, e_url ep) ep) d eps) k =
     (case find (\<lambda>e. (e_method e, e_url e) = k) (rev eps) of
        Some e \<Rightarrow> Some e
      | None \<Rightarrow> map_of d k)"
proof (induction eps arbitrary: d)
  case Nil
  show ?case by simp
next
  case (Cons a eps)
  show ?case
    using Cons.IH [of "dict_set d (e_method a, e_url a) a"]
    by (auto simp: find_snoc map_of_dict_set split: option.splits)
qed

lemma endpoint_dict_distinct:
  "distinct (map fst d) \<Longrightarrow>
   distinct (map fst (foldl (\<lambda>d ep. dict_set d (e_method ep, e_url ep) ep) d eps))"
  by (induction eps arbitrary: d) (auto simp: dict_set_distinct)

lemma endpoint_dict_keyed:
  "\<forall>(k, e) \<in> set d. (e_method e, e_url e) = k \<Longrightarrow>
   \<forall>(k, e) \<in> set (foldl (\<lambda>d ep. dict_set d (e_method ep, e_url ep) ep) d eps).
      (e_method e, e_url e) = k"
proof (induction eps arbitrary: d)
  case Nil
  then show ?case by simp
next
  case (Cons a eps)
  have "\<forall>(k, e) \<in> set (dict_set d (e_method a, e_url a) a). (e_method e, e_url e) = k"
    using Cons.prems dict_set_entries [of d "(e_method a, e_url a)" a] by auto
  from Cons.IH [OF this] show ?case by simp
qed

lemma keyed_dict_filter:
  "distinct (map fst d) \<Longrightarrow> \<forall>(k, e) \<in> set d. key e = k \<Longrightarrow>
   filter (\<lambda>e. key e = k) (map snd d) = (case map_of d k of None \<Rightarrow> [] | Some e \<Rightarrow> [e])"
proof (induction d)
  case Nil
  show ?case by simp
next
  case (Cons p d)
  obtain k' e' where p: "p = (k', e')" by (cases p)
  from Cons.prems have IH: "filter (\<lambda>e. key e = k) (map snd d) = (case map_of d k of None \<Rightarrow> [] | Some e \<Rightarrow> [e])"
    by (intro Cons.IH) auto
  show ?case
  proof (cases "k' = k")
    case True
    with Cons.prems p have "k \<notin> fst ` set d" by auto
    then have "map_of d k = None" by (simp add: map_of_eq_None_iff)
    with IH True p Cons.prems show ?thesis by simp
  next
    case False
    with IH p Cons.prems show ?thesis by auto
  qed
qed

lemma unique_endpoints_filter:
  "filter (\<lambda>e. e_method e = m \<and> e_url e = u) (unique_endpoints eps) =
     (case find (\<lambda>e. e_method e = m \<and> e_url e = u) (rev eps) of None \<Rightarrow> [] | Some e \<Rightarrow> [e])"
proof -
  let ?d = "foldl (\<lambda>d ep. dict_set d (e_method ep, e_url ep) ep) [] eps"
  have pred: "(\<lambda>e. e_method e = m \<and> e_url e = u) = (\<lambda>e. (e_method e, e_url e) = (m, u))"
    by auto
  have "distinct (map fst ?d)" by (rule endpoint_dict_distinct) simp
  moreover have "\<forall>(k, e) \<in> set ?d. (e_method e, e_url e) = k"
    by (rule endpoint_dict_keyed) simp
  ultimately have "filter (\<lambda>e. (e_method e, e_url e) = (m, u)) (map snd ?d) =
      (case map_of ?d (m, u) of None \<Rightarrow> [] | Some e \<Rightarrow> [e])"
    by (rule keyed_dict_filter)
  then show ?thesis
    unfolding pred unique_endpoints_def
    by (simp add: endpoint_dict_lookup split: option.splits)
qed

lemma walk_loop_routes:
  "list_all (\<lambda>node. \<not> isl node) nodes \<Longrightarrow> walk_loop nodes acc = Inr (acc @ routes nodes)"
  by (induction nodes acc rule: walk_loop.induct) auto

lemma walk_loop_raises:
  "list_ex isl nodes \<Longrightarrow> isl (walk_loop nodes acc)"
  by (induction nodes acc rule: walk_loop.induct) auto

lemma analyze_python_file_raises: "list_ex isl nodes \<Longrightarrow> analyze_python_file nodes = []"
  using walk_loop_raises [of nodes "[]"]
  by (auto simp: analyze_python_file_def split: sum.splits)


text \<open>
  C10, as the code has it. When the analysis of no function definition of the file raises,
  the file yields, for every (method, url) pair, just the endpoint of the last decorated
  handler with that pair in traversal order. When the analysis of some function definition
  raises (a plain \<^verbatim>\<open>@app.route('/x')\<close> without a \<^verbatim>\<open>methods\<close> list ends in
  \<^verbatim>\<open>HTTPMethod('ROUTE')\<close>, a \<^verbatim>\<open>ValueError\<close>), the handler around the loop returns the empty
  list for the whole file. The merge stage keeps the first record of a pair.
\<close>

theorem python_file_last_handler_wins:
  "(list_all (\<lambda>node. \<not> isl node) nodes \<longrightarrow>
     filter (\<lambda>e. e_method e = m \<and> e_url e = u) (analyze_python_file nodes) =
       (case find (\<lambda>e. e_method e = m \<and> e_url e = u) (rev (routes nodes)) of
          None \<Rightarrow> []
        | Some e \<Rightarrow> [e]))
   \<and> filter (\<lambda>e. http_method e = m \<and> url e = u) (deduplicate_endpoints es) =
       (case find (\<lambda>e. http_method e = m \<and> url e = u) es of None \<Rightarrow> [] | Some e \<Rightarrow> [e])
   \<and> (list_ex isl raising \<longrightarrow> analyze_python_file raising = [])"
  by (simp add: analyze_python_file_def walk_loop_routes unique_endpoints_filter
      deduplicate_filter analyze_python_file_raises [unfolded analyze_python_file_def])

theorem python_file_last_handler_wins_witness:
  "list_all (\<lambda>node. \<not> isl node) [Inr (Some \<lparr>e_url = ''/users'', e_method = GET, e_parameters = [],
       e_request_body = None, e_response_schema = None, e_authentication_required = False,
       e_description = ''A'', e_tags = [''python'', ''fastapi''],
       e_framework = ''fastapi'', e_handler_function = Some ''list_users''\<rparr>), Inr None, Inr (Some \<lparr>e_url = ''/users'', e_method = GET, e_parameters = [],
       e_request_body = None, e_response_schema = None, e_authentication_required = False,
       e_description = ''B'', e_tags = [''python'', ''fastapi''],
       e_framework = ''fastapi'', e_handler_function = Some ''list_users_v2''\<rparr>)]
   \<and> filter (\<lambda>e. e_method e = GET \<and> e_url e = ''/users'')
       (analyze_python_file [Inr (Some \<lparr>e_url = ''/users'', e_method = GET, e_parameters = [],
       e_request_body = None, e_response_schema = None, e_authentication_required = False,
       e_description = ''A'', e_tags = [''python'', ''fastapi''],
       e_framework = ''fastapi'', e_handler_function = Some ''list_users''\<rparr>), Inr None, Inr (Some \<lparr>e_url = ''/users'', e_method = GET, e_parameters = [],
       e_request_body = None, e_response_schema = None, e_authentication_required = False,
       e_description = ''B'', e_tags = [''python'', ''fastapi''],
       e_framework = ''fastapi'', e_handler_function = Some ''list_users_v2''\<rparr>)])
     = [\<lparr>e_url = ''/users'', e_method = GET, e_parameters = [],
       e_request_body = None, e_response_schema = None, e_authentication_required = False,
       e_description = ''B'', e_tags = [''python'', ''fastapi''],
       e_framework = ''fastapi'', e_handler_function = Some ''list_users_v2''\<rparr>]
   \<and> list_ex isl [Inr (Some \<lparr>e_url = ''/users'', e_method = GET, e_parameters = [],
       e_request_body = None, e_response_schema = None, e_authentication_required = False,
       e_description = ''A'', e_tags = [''python'', ''fastapi''],
       e_framework = ''fastapi'', e_handler_function = Some ''list_users''\<rparr>), Inr (Some \<lparr>e_url = ''/users'', e_method = GET, e_parameters = [],
       e_request_body = None, e_response_schema = None, e_authentication_required = False,
       e_description = ''B'', e_tags = [''python'', ''fastapi''],
       e_framework = ''fastapi'', e_handler_function = Some ''list_users_v2''\<rparr>), Inl ValueError]
   \<and> analyze_python_file [Inr (Some \<lparr>e_url = ''/users'', e_method = GET, e_parameters = [],
       e_request_body = None, e_response_schema = None, e_authentication_required = False,
       e_description = ''A'', e_tags = [''python'', ''fastapi''],
       e_framework = ''fastapi'', e_handler_function = Some ''list_users''\<rparr>), Inr (Some \<lparr>e_url = ''/users'', e_method = GET, e_parameters = [],
       e_request_body = None, e_response_schema = None, e_authentication_required = False,
       e_description = ''B'', e_tags = [''python'', ''fastapi''],
       e_framework = ''fastapi'', e_handler_function = Some ''list_users_v2''\<rparr>), Inl ValueError] = []"
  using python_file_last_handler_wins
    [of "[Inr (Some \<lparr>e_url = ''/users'', e_method = GET, e_parameters = [],
       e_request_body = None, e_response_schema = None, e_authentication_required = False,
       e_description = ''A'', e_tags = [''python'', ''fastapi''],
       e_framework = ''fastapi'', e_handler_function = Some ''list_users''\<rparr>), Inr None, Inr (Some \<lparr>e_url = ''/users'', e_method = GET, e_parameters = [],
       e_request_body = None, e_response_schema = None, e_authentication_required = False,
       e_description = ''B'', e_tags = [''python'', ''fastapi''],
       e_framework = ''fastapi'', e_handler_function = Some ''list_users_v2''\<rparr>)]" GET "''/users''" "[]"
        "[Inr (Some \<lparr>e_url = ''/users'', e_method = GET, e_parameters = [],
       e_request_body = None, e_response_schema = None, e_authentication_required = False,
       e_description = ''A'', e_tags = [''python'', ''fastapi''],
       e_framework = ''fastapi'', e_handler_function = Some ''list_users''\<rparr>), Inr (Some \<lparr>e_url = ''/users'', e_method = GET, e_parameters = [],
       e_request_body = None, e_response_schema = None, e_authentication_required = False,
       e_description = ''B'', e_tags = [''python'', ''fastapi''],
       e_framework = ''fastapi'', e_handler_function = Some ''list_users_v2''\<rparr>), Inl ValueError]"]
  by simp

text \<open>
  C10, as stated, fails: two handlers yield the pair (GET, /users) and a third function
  definition of the same file makes the analysis raise; the file then yields no endpoint
  for the pair, not the last one.
\<close>

theorem python_file_raising_function_drops_all:
  "routes [Inr (Some \<lparr>e_url = ''/users'', e_method = GET, e_parameters = [],
       e_request_body = None, e_response_schema = None, e_authentication_required = False,
       e_description = ''A'', e_tags = [''python'', ''fastapi''],
       e_framework = ''fastapi'', e_handler_function = Some ''list_users''\<rparr>), Inr (Some \<lparr>e_url = ''/users'', e_method = GET, e_parameters = [],
       e_request_body = None, e_response_schema = None, e_authentication_required = False,
       e_description = ''B'', e_tags = [''python'', ''fastapi''],
       e_framework = ''fastapi'', e_handler_function = Some ''list_users_v2''\<rparr>), Inl ValueError]
     = [\<lparr>e_url = ''/users'', e_method = GET, e_parameters = [],
       e_request_body = None, e_response_schema = None, e_authentication_required = False,
       e_description = ''A'', e_tags = [''python'', ''fastapi''],
       e_framework = ''fastapi'', e_handler_function = Some ''list_users''\<rparr>,
        \<lparr>e_url = ''/users'', e_method = GET, e_parameters = [],
       e_request_body = None, e_response_schema = None, e_authentication_required = False,
       e_description = ''B'', e_tags = [''python'', ''fastapi''],
       e_framework = ''fastapi'', e_handler_function = Some ''list_users_v2''\<rparr>]
   \<and> analyze_python_file [Inr (Some \<lparr>e_url = ''/users'', e_method = GET, e_parameters = [],
       e_request_body = None, e_response_schema = None, e_authentication_required = False,
       e_description = ''A'', e_tags = [''python'', ''fastapi''],
       e_framework = ''fastapi'', e_handler_function = Some ''list_users''\<rparr>), Inr (Some \<lparr>e_url = ''/users'', e_method = GET, e_parameters = [],
       e_request_body = None, e_response_schema = None, e_authentication_required = False,
       e_description = ''B'', e_tags = [''python'', ''fastapi''],
       e_framework = ''fastapi'', e_handler_function = Some ''list_users_v2''\<rparr>), Inl ValueError] = []"
  by (simp add: analyze_python_file_def)

section \<open>Proofs: format parsers\<close>

lemma entry_source_param_entry [simp]: "entry_source (param_entry n t s r d) = s"
  by (simp add: entry_source_def param_entry_def dict_get_def)

lemma openapi_source_lookup:
  "source_lookup openapi_source_map loc = Inr s \<Longrightarrow> s \<in> {''query'', ''path'', ''header''}"
  by (cases loc) (auto simp: openapi_source_map_def dict_get_def split: if_splits)

lemma openapi_param_entry_source:
  "openapi_param_entry param = Inr (Some (n, v)) \<Longrightarrow>
   entry_source v \<in> JStr ` {''query'', ''path'', ''header''}"
  by (auto simp: openapi_param_entry_def split: sum.splits json.splits if_splits
      dest!: openapi_source_lookup)

lemma openapi_param_entry_table:
  "openapi_param_entry (JObj p) = Inr (Some (n, v)) \<Longrightarrow>
   dict_get p ''in'' (JStr ''query'') = JStr loc \<Longrightarrow>
   entry_source v =
     JStr (if loc \<in> set [''query'', ''path'', ''header''] then loc
           else if loc = ''cookie'' then ''header'' else ''query'')"
  by (auto simp: openapi_param_entry_def openapi_source_map_def dict_get_def
      split: sum.splits json.splits if_splits)

lemma declared_loop_values:
  "declared_loop entry ps d = Inr d' \<Longrightarrow>
   (\<And>param n v. entry param = Inr (Some (n, v)) \<Longrightarrow> P v) \<Longrightarrow>
   \<forall>(k, v) \<in> set d. P v \<Longrightarrow> \<forall>(k, v) \<in> set d'. P v"
proof (induction ps arbitrary: d)
  case Nil
  then show ?case by simp
next
  case (Cons param ps)
  show ?case
  proof (cases "entry param")
    case (Inl e)
    with Cons.prems(1) show ?thesis by simp
  next
    case (Inr r)
    show ?thesis
    proof (cases r)
      case None
      with Inr Cons.prems(1) have "declared_loop entry ps d = Inr d'" by simp
      from Cons.IH [OF this Cons.prems(2) Cons.prems(3)] show ?thesis by simp
    next
      case (Some kv)
      obtain k v where kv: "kv = (k, v)" by (cases kv)
      with Some Inr Cons.prems(1) have run: "declared_loop entry ps (dict_set d k v) = Inr d'"
        by simp
      have "P v" using Cons.prems(2) Inr Some kv by blast
      then have "\<forall>(k, v) \<in> set (dict_set d k v). P v"
        using Cons.prems(3) dict_set_entries [of d k v] by auto
      from Cons.IH [OF run Cons.prems(2) this] show ?thesis by simp
    qed
  qed
qed

lemma add_path_params_values:
  "\<forall>(k, v) \<in> set d. P v \<Longrightarrow> (\<And>n. P (path_param n)) \<Longrightarrow>
   \<forall>(k, v) \<in> set (add_path_params ns d). P v"
proof (induction ns arbitrary: d)
  case Nil
  then show ?case by simp
next
  case (Cons n ns)
  have "\<forall>(k, v) \<in> set (dict_set d n (path_param n)). P v"
    using Cons.prems dict_set_entries [of d n "path_param n"] by auto
  with Cons.prems Cons.IH show ?case by simp
qed

lemma assign_all_values:
  "\<forall>(k, v) \<in> set d. P v \<Longrightarrow> \<forall>(k, v) \<in> set es. P v \<Longrightarrow>
   \<forall>(k, v) \<in> set (assign_all d es). P v"
proof (induction es arbitrary: d)
  case Nil
  then show ?case by (simp add: assign_all_def)
next
  case (Cons e es)
  obtain k v where e: "e = (k, v)" by (cases e)
  have "\<forall>(k, v) \<in> set (dict_set d k v). P v"
    using Cons.prems e dict_set_entries [of d k v] by auto
  moreover from Cons.prems have "\<forall>(k, v) \<in> set es. P v" by simp
  ultimately have "\<forall>(k, v) \<in> set (assign_all (dict_set d k v) es). P v"
    by (rule Cons.IH)
  then show ?case by (simp add: assign_all_def e)
qed

lemma properties_loop_values:
  "properties_loop schema props = Inr es \<Longrightarrow> \<forall>(k, v) \<in> set es. entry_source v = JStr ''body''"
proof (induction props arbitrary: es)
  case Nil
  then show ?case by simp
next
  case (Cons p rest)
  obtain prop_name prop_data where p: "p = (prop_name, prop_data)" by (cases p)
  from Cons.prems p obtain e es' where
    "properties_loop schema rest = Inr es'" "es = (prop_name, e) # es'"
    "entry_source e = JStr ''body''"
    by (auto split: sum.splits)
  with Cons.IH [of es'] show ?case by auto
qed

lemma content_loop_values:
  "content_loop content = Inr es \<Longrightarrow> \<forall>(k, v) \<in> set es. entry_source v = JStr ''body''"
proof (induction content arbitrary: es)
  case Nil
  then show ?case by simp
next
  case (Cons p rest)
  obtain content_type content_data where p: "p = (content_type, content_data)" by (cases p)
  show ?case
  proof (cases "contains ''application/json'' content_type")
    case False
    with Cons.prems p have "content_loop rest = Inr es" by simp
    then show ?thesis by (rule Cons.IH)
  next
    case True
    with Cons.prems p obtain schema props es1 es2 where
      "properties_loop schema props = Inr es1" "content_loop rest = Inr es2" "es = es1 @ es2"
      by (auto split: sum.splits)
    with properties_loop_values [of schema props es1] Cons.IH [of es2]
    show ?thesis by auto
  qed
qed

lemma request_body_entries_values:
  "request_body_entries md = Inr es \<Longrightarrow> \<forall>(k, v) \<in> set es. entry_source v = JStr ''body''"
  by (auto simp: request_body_entries_def split: option.splits sum.splits
      dest!: content_loop_values)

lemma openapi_sources:
  assumes "extract_openapi_parameters md path = Inr ps" and "(n, v) \<in> set ps"
  shows "entry_source v \<in> JStr ` {''query'', ''path'', ''header'', ''body''}"
proof -
  let ?P = "\<lambda>v. entry_source v \<in> JStr ` {''query'', ''path'', ''header'', ''body''}"
  from assms(1) obtain declared entries where
    d: "declared_params openapi_param_entry md = Inr declared"
    and es: "request_body_entries md = Inr entries"
    and ps: "ps = assign_all (add_path_params (find_brace_params path) declared) entries"
    by (auto simp: extract_openapi_parameters_def split: sum.splits)
  from d obtain params where "declared_loop openapi_param_entry params [] = Inr declared"
    by (auto simp: declared_params_def split: sum.splits)
  then have "\<forall>(k, v) \<in> set declared. ?P v"
    by (rule declared_loop_values) (auto dest: openapi_param_entry_source)
  then have "\<forall>(k, v) \<in> set (add_path_params (find_brace_params path) declared). ?P v"
    by (rule add_path_params_values) (simp add: path_param_def)
  moreover have "\<forall>(k, v) \<in> set entries. ?P v"
    using request_body_entries_values [OF es] by auto
  ultimately have "\<forall>(k, v) \<in> set ps. ?P v"
    unfolding ps by (rule assign_all_values)
  with assms(2) show ?thesis by auto
qed


text \<open>
  C7, as the code has it. The location table of the OpenAPI 3 parser maps \<^verbatim>\<open>query\<close>,
  \<^verbatim>\<open>path\<close> and \<^verbatim>\<open>header\<close> to themselves, \<^verbatim>\<open>cookie\<close> to \<^verbatim>\<open>header\<close> and any other
  string to \<^verbatim>\<open>query\<close>; no entry of the extracted parameters has a source other than
  \<^verbatim>\<open>query\<close>, \<^verbatim>\<open>path\<close>, \<^verbatim>\<open>header\<close> or \<^verbatim>\<open>body\<close>.
\<close>

theorem openapi_location_table:
  "(openapi_param_entry (JObj p) = Inr (Some (n, v))
      \<and> dict_get p ''in'' (JStr ''query'') = JStr loc \<longrightarrow>
    entry_source v =
      JStr (if loc \<in> set [''query'', ''path'', ''header''] then loc
            else if loc = ''cookie'' then ''header'' else ''query''))
   \<and> (extract_openapi_parameters md path = Inr ps \<and> (k, w) \<in> set ps \<longrightarrow>
    entry_source w \<in> {JStr ''query'', JStr ''path'', JStr ''header'', JStr ''body''})"
  using openapi_param_entry_table [of p n v loc] openapi_sources [of md path ps k w]
  by auto

lemma openapi_param_entry_cookie:
  "openapi_param_entry (JObj [(''name'', JStr ''session''), (''in'', JStr ''cookie'')])
   = Inr (Some (''session'', param_entry ''session'' (JStr ''string'') (JStr ''header'') (JBool False)
       (JStr ''session parameter'')))"
  by (simp add: openapi_param_entry_def dict_get_def openapi_source_map_def)

text \<open>
  C7, as the specification states it, fails: a parameter declared with \<^verbatim>\<open>in: cookie\<close> is
  stored with \<^verbatim>\<open>source = header\<close>.
\<close>

theorem openapi_cookie_is_header:
  "extract_openapi_parameters
     [(''parameters'', JArr [JObj [(''name'', JStr ''session''), (''in'', JStr ''cookie'')]])]
     ''/me''
   = Inr [(''session'', param_entry ''session'' (JStr ''string'') (JStr ''header'') (JBool False)
       (JStr ''session parameter''))]"
  by (simp add: extract_openapi_parameters_def declared_params_def dict_get_def
      openapi_param_entry_cookie request_body_entries_def assign_all_def)

theorem openapi_location_table_witness:
  "openapi_param_entry (JObj [(''name'', JStr ''session''), (''in'', JStr ''cookie'')])
     = Inr (Some (''session'', param_entry ''session'' (JStr ''string'') (JStr ''header'') (JBool False)
       (JStr ''session parameter'')))
   \<and> dict_get [(''name'', JStr ''session''), (''in'', JStr ''cookie'')] ''in'' (JStr ''query'')
     = JStr ''cookie''
   \<and> entry_source (param_entry ''session'' (JStr ''string'') (JStr ''header'') (JBool False)
       (JStr ''session parameter'')) = JStr ''header''
   \<and> extract_openapi_parameters
       [(''parameters'', JArr [JObj [(''name'', JStr ''session''), (''in'', JStr ''cookie'')]])]
       ''/me''
     = Inr [(''session'', param_entry ''session'' (JStr ''string'') (JStr ''header'') (JBool False)
       (JStr ''session parameter''))]
   \<and> (''session'', param_entry ''session'' (JStr ''string'') (JStr ''header'') (JBool False)
       (JStr ''session parameter''))
     \<in> set [(''session'', param_entry ''session'' (JStr ''string'') (JStr ''header'') (JBool False)
       (JStr ''session parameter''))]
   \<and> entry_source (param_entry ''session'' (JStr ''string'') (JStr ''header'') (JBool False)
       (JStr ''session parameter''))
     \<in> {JStr ''query'', JStr ''path'', JStr ''header'', JStr ''body''}"
  using openapi_location_table
    [of "[(''name'', JStr ''session''), (''in'', JStr ''cookie'')]" "''session''"
        "param_entry ''session'' (JStr ''string'') (JStr ''header'') (JBool False)
       (JStr ''session parameter'')" "''cookie''"
        "[(''parameters'', JArr [JObj [(''name'', JStr ''session''), (''in'', JStr ''cookie'')]])]"
        "''/me''" "[(''session'', param_entry ''session'' (JStr ''string'') (JStr ''header'') (JBool False)
       (JStr ''session parameter''))]" "''session''"
        "param_entry ''session'' (JStr ''string'') (JStr ''header'') (JBool False)
       (JStr ''session parameter'')"]
    openapi_param_entry_cookie
  by (simp add: dict_get_def extract_openapi_parameters_def declared_params_def
      request_body_entries_def assign_all_def)

lemma add_path_params_keys:
  "set (map fst (add_path_params ns d)) = set ns \<union> set (map fst d)"
proof (induction ns arbitrary: d)
  case Nil
  show ?case by simp
next
  case (Cons n ns)
  show ?case
    using Cons.IH [of d] Cons.IH [of "dict_set d n (path_param n)"]
      dict_set_keys [of d n "path_param n"]
    by auto
qed

lemma add_path_params_distinct:
  "distinct (map fst d) \<Longrightarrow> distinct (map fst (add_path_params ns d))"
  by (induction ns arbitrary: d) (simp_all add: dict_set_distinct)

lemma add_path_params_keeps:
  "map_of d n = Some v \<Longrightarrow> map_of (add_path_params ns d) n = Some v"
proof (induction ns arbitrary: d)
  case Nil
  then show ?case by simp
next
  case (Cons a ns)
  show ?case
  proof (cases "a \<in> set (map fst d)")
    case True
    with Cons show ?thesis by simp
  next
    case False
    with Cons.prems have "a \<noteq> n" by (auto simp: map_of_eq_None_iff [symmetric])
    with Cons.prems have "map_of (dict_set d a (path_param a)) n = Some v"
      by (simp add: map_of_dict_set)
    from Cons.IH [OF this] False show ?thesis by simp
  qed
qed

lemma add_path_params_new:
  "n \<in> set ns \<Longrightarrow> n \<notin> set (map fst d) \<Longrightarrow>
   map_of (add_path_params ns d) n = Some (path_param n)"
proof (induction ns arbitrary: d)
  case Nil
  then show ?case by simp
next
  case (Cons a ns)
  show ?case
  proof (cases "a = n")
    case True
    have "map_of (dict_set d n (path_param n)) n = Some (path_param n)"
      by (simp add: map_of_dict_set)
    from add_path_params_keeps [OF this] True Cons.prems(2) show ?thesis by simp
  next
    case False
    with Cons.prems have n: "n \<in> set ns" by simp
    have "n \<notin> set (map fst (dict_set d a (path_param a)))"
      using False Cons.prems(2) dict_set_keys [of d a "path_param a"] by auto
    with Cons.IH [OF n] Cons.IH [OF n Cons.prems(2)] show ?thesis by simp
  qed
qed

lemma assign_all_keys:
  "set (map fst (assign_all d es)) = set (map fst d) \<union> set (map fst es)"
proof (induction es arbitrary: d)
  case Nil
  show ?case by (simp add: assign_all_def)
next
  case (Cons e es)
  obtain k v where e: "e = (k, v)" by (cases e)
  have "assign_all d (e # es) = assign_all (dict_set d k v) es"
    by (simp add: assign_all_def e)
  with Cons.IH [of "dict_set d k v"] dict_set_keys [of d k v] e show ?case by auto
qed

lemma assign_all_distinct:
  "distinct (map fst d) \<Longrightarrow> distinct (map fst (assign_all d es))"
proof (induction es arbitrary: d)
  case Nil
  then show ?case by (simp add: assign_all_def)
next
  case (Cons e es)
  obtain k v where e: "e = (k, v)" by (cases e)
  have "assign_all d (e # es) = assign_all (dict_set d k v) es"
    by (simp add: assign_all_def e)
  with Cons.IH [of "dict_set d k v"] dict_set_distinct [OF Cons.prems, of k v] show ?case
    by simp
qed

lemma assign_all_other:
  "n \<notin> set (map fst es) \<Longrightarrow> map_of (assign_all d es) n = map_of d n"
proof (induction es arbitrary: d)
  case Nil
  show ?case by (simp add: assign_all_def)
next
  case (Cons e es)
  obtain k v where e: "e = (k, v)" by (cases e)
  have "assign_all d (e # es) = assign_all (dict_set d k v) es"
    by (simp add: assign_all_def e)
  with Cons.IH [of "dict_set d k v"] Cons.prems e show ?case
    by (simp add: map_of_dict_set)
qed

lemma declared_loop_distinct:
  "declared_loop entry ps d = Inr d' \<Longrightarrow> distinct (map fst d) \<Longrightarrow> distinct (map fst d')"
proof (induction ps arbitrary: d)
  case Nil
  then show ?case by simp
next
  case (Cons param ps)
  then show ?case
    by (auto split: sum.splits option.splits dest: dict_set_distinct)
qed

lemma operation_endpoint_fields:
  "operation_endpoint extract path mn (JObj md) = Inr (Some endpoint) \<Longrightarrow>
   \<exists>ps. extract md path = Inr ps \<and> url endpoint = path
     \<and> param_items endpoint = map (\<lambda>(k, v). (k, PJson v)) ps"
  by (auto simp: operation_endpoint_def make_endpoint_def param_items_def
      split: if_splits option.splits sum.splits)

lemma map_fst_PJson: "map fst (map (\<lambda>(k, v). (k, PJson v)) ps) = map fst ps"
  by (induction ps) auto

lemma map_of_PJson:
  "map_of (map (\<lambda>(k, v). (k, PJson v)) ps) n = map_option PJson (map_of ps n)"
  by (induction ps) auto


lemma declared_loop_keys:
  "declared_loop entry ps d = Inr d' \<Longrightarrow>
   set (map fst d') = set (map fst d) \<union> set (stored_names entry ps)"
proof (induction ps arbitrary: d)
  case Nil
  then show ?case by simp
next
  case (Cons param ps)
  show ?case
  proof (cases "entry param")
    case (Inl e)
    with Cons.prems show ?thesis by simp
  next
    case (Inr r)
    show ?thesis
    proof (cases r)
      case None
      with Inr Cons.prems Cons.IH [of d] show ?thesis by simp
    next
      case (Some kv)
      obtain k v where kv: "kv = (k, v)" by (cases kv)
      with Some Inr Cons.prems have "declared_loop entry ps (dict_set d k v) = Inr d'" by simp
      from Cons.IH [OF this] dict_set_keys [of d k v] Inr Some kv show ?thesis by auto
    qed
  qed
qed

lemma declared_loop_other:
  "declared_loop entry ps d = Inr d' \<Longrightarrow> n \<notin> set (stored_names entry ps) \<Longrightarrow>
   map_of d' n = map_of d n"
proof (induction ps arbitrary: d)
  case Nil
  then show ?case by simp
next
  case (Cons param ps)
  show ?case
  proof (cases "entry param")
    case (Inl e)
    with Cons.prems show ?thesis by simp
  next
    case (Inr r)
    show ?thesis
    proof (cases r)
      case None
      with Inr Cons.prems Cons.IH [of d] show ?thesis by simp
    next
      case (Some kv)
      obtain k v where kv: "kv = (k, v)" by (cases kv)
      with Some Inr Cons.prems have run: "declared_loop entry ps (dict_set d k v) = Inr d'"
        and nk: "n \<noteq> k" and rest: "n \<notin> set (stored_names entry ps)"
        by auto
      from Cons.IH [OF run rest] nk show ?thesis by (simp add: map_of_dict_set)
    qed
  qed
qed

lemma assign_all_Cons: "assign_all d ((k, v) # es) = assign_all (dict_set d k v) es"
  by (simp add: assign_all_def)

lemma assign_all_lookup: "map_of (assign_all d es) = map_of d ++ map_of (rev es)"
proof (induction es arbitrary: d)
  case Nil
  show ?case by (simp add: assign_all_def)
next
  case (Cons e es)
  obtain k v where e: "e = (k, v)" by (cases e)
  have "map_of (assign_all d (e # es)) = (map_of d)(k \<mapsto> v) ++ map_of (rev es)"
    unfolding e assign_all_Cons by (simp only: Cons.IH map_of_dict_set)
  also have "\<dots> = map_of d ++ map_of (rev (e # es))"
    by (rule ext) (auto simp: e map_add_def split: option.splits)
  finally show ?case .
qed

lemma assign_all_member:
  "n \<in> set (map fst es) \<Longrightarrow> \<exists>v. map_of (assign_all d es) n = Some v \<and> (n, v) \<in> set es"
proof -
  assume "n \<in> set (map fst es)"
  then have "n \<in> fst ` set (rev es)" by simp
  then obtain v where v: "map_of (rev es) n = Some v"
    by (metis map_of_eq_None_iff not_Some_eq)
  then have "(n, v) \<in> set es" by (auto dest: map_of_SomeD)
  with v show ?thesis by (auto simp: assign_all_lookup map_add_def)
qed

lemma assign_all_path_entries:
  "n \<in> set ns \<Longrightarrow> map_of (assign_all d (path_entries ns)) n = Some (path_param n)"
proof -
  assume n: "n \<in> set ns"
  then have "n \<in> set (map fst (path_entries ns))" by (force simp: path_entries_def)
  from assign_all_member [OF this, of d] show ?thesis by (auto simp: path_entries_def)
qed

lemma path_entries_keys: "set (map fst (path_entries ns)) = set ns"
  by (force simp: path_entries_def)

(* ---- OpenAPI, extractor level ---- *)
lemma openapi_extract_placeholders:
  assumes ps: "extract_openapi_parameters md path = Inr ps"
    and d: "declared_params openapi_param_entry md = Inr d"
    and es: "request_body_entries md = Inr es"
  shows "distinct (map fst ps)"
    and "set (find_brace_params path) \<subseteq> set (map fst ps)"
    and "n \<in> set (find_brace_params path) \<Longrightarrow> n \<notin> set (map fst d) \<Longrightarrow> n \<notin> set (map fst es) \<Longrightarrow>
         map_of ps n = Some (path_param n)"
    and "n \<in> set (map fst d) \<Longrightarrow> n \<notin> set (map fst es) \<Longrightarrow> map_of ps n = map_of d n"
    and "n \<in> set (map fst es) \<Longrightarrow> \<exists>v. map_of ps n = Some v \<and> entry_source v = JStr ''body''"
proof -
  from ps d es have psd: "ps = assign_all (add_path_params (find_brace_params path) d) es"
    by (simp add: extract_openapi_parameters_def)
  from d obtain params where "declared_loop openapi_param_entry params [] = Inr d"
    by (auto simp: declared_params_def split: sum.splits)
  then have "distinct (map fst d)" by (rule declared_loop_distinct) simp
  then show "distinct (map fst ps)"
    unfolding psd by (intro assign_all_distinct add_path_params_distinct)
  show "set (find_brace_params path) \<subseteq> set (map fst ps)"
    unfolding psd
    using assign_all_keys [of "add_path_params (find_brace_params path) d" es]
      add_path_params_keys [of "find_brace_params path" d]
    by auto
  show "map_of ps n = Some (path_param n)"
    if "n \<in> set (find_brace_params path)" "n \<notin> set (map fst d)" "n \<notin> set (map fst es)"
    unfolding psd using that by (simp add: assign_all_other add_path_params_new)
  show "map_of ps n = map_of d n" if "n \<in> set (map fst d)" "n \<notin> set (map fst es)"
  proof -
    from that(1) obtain v where v: "map_of d n = Some v"
      by (metis map_of_eq_None_iff not_Some_eq set_map)
    from add_path_params_keeps [OF v, of "find_brace_params path"] v that(2) show ?thesis
      unfolding psd by (simp add: assign_all_other)
  qed
  show "\<exists>v. map_of ps n = Some v \<and> entry_source v = JStr ''body''" if "n \<in> set (map fst es)"
  proof -
    from assign_all_member [OF that, of "add_path_params (find_brace_params path) d"]
    obtain v where "map_of ps n = Some v" "(n, v) \<in> set es" unfolding psd by blast
    with request_body_entries_values [OF es] show ?thesis by auto
  qed
qed

(* ---- Postman, extractor level ---- *)
lemma postman_extract_placeholders:
  assumes ps: "extract_postman_parameters loads request url_path = Inr ps"
  shows "distinct (map fst ps)"
    and "set (find_colon_params url_path) \<subseteq> set (map fst ps)"
    and "n \<in> set (find_colon_params url_path) \<Longrightarrow> n \<notin> set (postman_header_names request) \<Longrightarrow>
         n \<notin> set (postman_body_names loads request) \<Longrightarrow> map_of ps n = Some (path_param n)"
proof -
  from ps obtain qs d1 hs d3 bs where
    d1: "declared_loop postman_query_entry qs [] = Inr d1"
    and hs: "iter_items (dict_get request ''header'' (JArr [])) = Inr hs"
    and d3: "declared_loop postman_header_entry hs
               (assign_all d1 (path_entries (find_colon_params url_path))) = Inr d3"
    and bs: "postman_body_entries loads request = Inr bs"
    and psd: "ps = assign_all d3 bs"
    by (auto simp: extract_postman_parameters_def split: sum.splits)
  let ?d2 = "assign_all d1 (path_entries (find_colon_params url_path))"
  have "distinct (map fst d1)" using d1 by (rule declared_loop_distinct) simp
  then have "distinct (map fst ?d2)" by (rule assign_all_distinct)
  with d3 have "distinct (map fst d3)" by (rule declared_loop_distinct)
  then show "distinct (map fst ps)" unfolding psd by (rule assign_all_distinct)
  show "set (find_colon_params url_path) \<subseteq> set (map fst ps)"
    unfolding psd
    using assign_all_keys [of d3 bs] declared_loop_keys [OF d3]
      assign_all_keys [of d1 "path_entries (find_colon_params url_path)"]
      path_entries_keys [of "find_colon_params url_path"]
    by auto
  show "map_of ps n = Some (path_param n)"
    if "n \<in> set (find_colon_params url_path)" "n \<notin> set (postman_header_names request)"
      "n \<notin> set (postman_body_names loads request)"
  proof -
    from that(2) hs have "n \<notin> set (stored_names postman_header_entry hs)"
      by (simp add: postman_header_names_def)
    from declared_loop_other [OF d3 this] have "map_of d3 n = map_of ?d2 n" .
    also have "\<dots> = Some (path_param n)" using that(1) by (rule assign_all_path_entries)
    finally have "map_of d3 n = Some (path_param n)" .
    moreover from that(3) bs have "n \<notin> set (map fst bs)"
      by (simp add: postman_body_names_def)
    ultimately show ?thesis unfolding psd by (simp add: assign_all_other)
  qed
qed

(* ---- Insomnia, extractor level ---- *)
lemma insomnia_extract_placeholders:
  assumes ps: "extract_insomnia_parameters resource url_path = Inr ps"
  shows "distinct (map fst ps)"
    and "set (find_brace_params url_path) \<subseteq> set (map fst ps)"
    and "n \<in> set (find_brace_params url_path) \<Longrightarrow> n \<notin> set (insomnia_header_names resource) \<Longrightarrow>
         map_of ps n = Some (path_param n)"
proof -
  from ps obtain qs d1 hs where
    d1: "declared_loop insomnia_param_entry qs [] = Inr d1"
    and hs: "iter_items (dict_get resource ''headers'' (JArr [])) = Inr hs"
    and d3: "declared_loop insomnia_header_entry hs
               (assign_all d1 (path_entries (find_brace_params url_path))) = Inr ps"
    by (auto simp: extract_insomnia_parameters_def split: sum.splits)
  let ?d2 = "assign_all d1 (path_entries (find_brace_params url_path))"
  have "distinct (map fst d1)" using d1 by (rule declared_loop_distinct) simp
  then have "distinct (map fst ?d2)" by (rule assign_all_distinct)
  with d3 show "distinct (map fst ps)" by (rule declared_loop_distinct)
  show "set (find_brace_params url_path) \<subseteq> set (map fst ps)"
    using declared_loop_keys [OF d3]
      assign_all_keys [of d1 "path_entries (find_brace_params url_path)"]
      path_entries_keys [of "find_brace_params url_path"]
    by auto
  show "map_of ps n = Some (path_param n)"
    if "n \<in> set (find_brace_params url_path)" "n \<notin> set (insomnia_header_names resource)"
  proof -
    from that(2) hs have "n \<notin> set (stored_names insomnia_header_entry hs)"
      by (simp add: insomnia_header_names_def)
    from declared_loop_other [OF d3 this] have "map_of ps n = map_of ?d2 n" .
    also have "\<dots> = Some (path_param n)" using that(1) by (rule assign_all_path_entries)
    finally show ?thesis .
  qed
qed

(* ---- record level ---- *)
lemma make_endpoint_fields:
  "make_endpoint path m descr ps tgs = Inr endpoint \<Longrightarrow>
   url endpoint = path \<and> param_items endpoint = map (\<lambda>(k, v). (k, PJson v)) ps"
  by (auto simp: make_endpoint_def param_items_def split: sum.splits)

lemma postman_request_endpoint_fields:
  "postman_request_endpoint loads folder_path item = Inr (Some endpoint) \<Longrightarrow>
   as_dict (dict_get item ''request'' JNull) = Inr request \<Longrightarrow>
   \<exists>ps. extract_postman_parameters loads request (url endpoint) = Inr ps
     \<and> param_items endpoint = map (\<lambda>(k, v). (k, PJson v)) ps"
  by (auto simp: postman_request_endpoint_def split: sum.splits json.splits option.splits
      if_splits dest!: make_endpoint_fields)

lemma insomnia_resource_endpoint_fields:
  "insomnia_resource_endpoint (JObj r) = Inr (Some endpoint) \<Longrightarrow>
   \<exists>ps. extract_insomnia_parameters r (url endpoint) = Inr ps
     \<and> param_items endpoint = map (\<lambda>(k, v). (k, PJson v)) ps"
  by (auto simp: insomnia_resource_endpoint_def split: sum.splits json.splits option.splits
      if_splits dest!: make_endpoint_fields)

lemma custom_item_endpoint_fields:
  "custom_item_endpoint (JObj it) = Inr (Some endpoint) \<Longrightarrow>
   param_items endpoint = map (\<lambda>(k, v). (k, PJson v)) (extract_custom_parameters it)"
  by (auto simp: custom_item_endpoint_def split: sum.splits json.splits option.splits
      dest!: make_endpoint_fields)

lemma extract_custom_parameters_keys_only:
  "\<forall>k \<in> set [''parameters'', ''params'', ''args'', ''fields'']. map_of it k = map_of it' k \<Longrightarrow>
   extract_custom_parameters it = extract_custom_parameters it'"
  by (simp add: extract_custom_parameters_def)


lemma deduplicate_subset: "set (deduplicate_endpoints eps) \<subseteq> set eps"
  using dedup_loop_subseq [of "{}" eps]
  unfolding deduplicate_endpoints_def by (blast dest: list_emb_set)

lemma openapi_record_placeholders:
  assumes ep: "operation_endpoint extract_openapi_parameters path mn (JObj md) = Inr (Some endpoint)"
    and d: "declared_params openapi_param_entry md = Inr declared"
    and es: "request_body_entries md = Inr entries"
  shows "distinct (map fst (param_items endpoint))
     \<and> set (find_brace_params (url endpoint)) \<subseteq> set (map fst (param_items endpoint))
     \<and> (\<forall>n \<in> set (find_brace_params (url endpoint)).
          (n \<notin> set (map fst declared) \<and> n \<notin> set (map fst entries) \<longrightarrow>
             map_of (param_items endpoint) n = Some (PJson (path_param n)))
          \<and> (n \<in> set (map fst declared) \<and> n \<notin> set (map fst entries) \<longrightarrow>
             map_of (param_items endpoint) n = map_option PJson (map_of declared n))
          \<and> (n \<in> set (map fst entries) \<longrightarrow>
             (\<exists>v. map_of (param_items endpoint) n = Some (PJson v)
                \<and> entry_source v = JStr ''body'')))"
proof -
  from operation_endpoint_fields [OF ep] obtain ps where
    ps: "extract_openapi_parameters md path = Inr ps" and u: "url endpoint = path"
    and items: "param_items endpoint = map (\<lambda>(k, v). (k, PJson v)) ps"
    by blast
  have keys_eq: "map fst (param_items endpoint) = map fst ps"
    by (simp only: items map_fst_PJson)
  note facts = openapi_extract_placeholders [OF ps d es]
  have a: "distinct (map fst (param_items endpoint))"
    unfolding keys_eq by (rule facts(1))
  have b: "set (find_brace_params (url endpoint)) \<subseteq> set (map fst (param_items endpoint))"
    unfolding keys_eq u by (rule facts(2))
  have c: "map_of (param_items endpoint) n = Some (PJson (path_param n))"
    if "n \<in> set (find_brace_params (url endpoint))" "n \<notin> set (map fst declared)"
      "n \<notin> set (map fst entries)" for n
    using facts(3) [of n] that by (simp add: items map_of_PJson u)
  have d': "map_of (param_items endpoint) n = map_option PJson (map_of declared n)"
    if "n \<in> set (map fst declared)" "n \<notin> set (map fst entries)" for n
    using facts(4) [OF that] by (simp add: items map_of_PJson)
  have e: "\<exists>v. map_of (param_items endpoint) n = Some (PJson v) \<and> entry_source v = JStr ''body''"
    if "n \<in> set (map fst entries)" for n
    using facts(5) [OF that] by (auto simp: items map_of_PJson)
  from a b c d' e show ?thesis by blast
qed

lemma postman_record_placeholders:
  assumes ep: "postman_request_endpoint loads folder_path item = Inr (Some endpoint)"
    and r: "as_dict (dict_get item ''request'' JNull) = Inr request"
  shows "distinct (map fst (param_items endpoint))
     \<and> set (find_colon_params (url endpoint)) \<subseteq> set (map fst (param_items endpoint))
     \<and> (\<forall>n \<in> set (find_colon_params (url endpoint)).
          n \<notin> set (postman_header_names request) \<and> n \<notin> set (postman_body_names loads request) \<longrightarrow>
          map_of (param_items endpoint) n = Some (PJson (path_param n)))"
proof -
  from postman_request_endpoint_fields [OF ep r] obtain ps where
    ps: "extract_postman_parameters loads request (url endpoint) = Inr ps"
    and items: "param_items endpoint = map (\<lambda>(k, v). (k, PJson v)) ps"
    by blast
  have keys_eq: "map fst (param_items endpoint) = map fst ps"
    by (simp only: items map_fst_PJson)
  note facts = postman_extract_placeholders [OF ps]
  have a: "distinct (map fst (param_items endpoint))"
    unfolding keys_eq by (rule facts(1))
  have b: "set (find_colon_params (url endpoint)) \<subseteq> set (map fst (param_items endpoint))"
    unfolding keys_eq by (rule facts(2))
  have c: "map_of (param_items endpoint) n = Some (PJson (path_param n))"
    if "n \<in> set (find_colon_params (url endpoint))" "n \<notin> set (postman_header_names request)"
      "n \<notin> set (postman_body_names loads request)" for n
    using facts(3) [OF that] by (simp add: items map_of_PJson)
  from a b c show ?thesis by blast
qed

lemma insomnia_record_placeholders:
  assumes ep: "insomnia_resource_endpoint (JObj resource) = Inr (Some endpoint)"
  shows "distinct (map fst (param_items endpoint))
     \<and> set (find_brace_params (url endpoint)) \<subseteq> set (map fst (param_items endpoint))
     \<and> (\<forall>n \<in> set (find_brace_params (url endpoint)).
          n \<notin> set (insomnia_header_names resource) \<longrightarrow>
          map_of (param_items endpoint) n = Some (PJson (path_param n)))"
proof -
  from insomnia_resource_endpoint_fields [OF ep] obtain ps where
    ps: "extract_insomnia_parameters resource (url endpoint) = Inr ps"
    and items: "param_items endpoint = map (\<lambda>(k, v). (k, PJson v)) ps"
    by blast
  have keys_eq: "map fst (param_items endpoint) = map fst ps"
    by (simp only: items map_fst_PJson)
  note facts = insomnia_extract_placeholders [OF ps]
  have a: "distinct (map fst (param_items endpoint))"
    unfolding keys_eq by (rule facts(1))
  have b: "set (find_brace_params (url endpoint)) \<subseteq> set (map fst (param_items endpoint))"
    unfolding keys_eq by (rule facts(2))
  have c: "map_of (param_items endpoint) n = Some (PJson (path_param n))"
    if "n \<in> set (find_brace_params (url endpoint))" "n \<notin> set (insomnia_header_names resource)"
    for n
    using facts(3) [OF that] by (simp add: items map_of_PJson)
  from a b c show ?thesis by blast
qed

text \<open>
  C2, as the code has it, parser by parser; in every record the parameter names are unique.
  OpenAPI 3: every brace placeholder of the path is a parameter name; its entry is the
  path-sourced one when the name is neither declared in the operation's parameter list nor
  a property of its JSON request body, the declared entry when it is declared and no body
  property, and an entry with \<^verbatim>\<open>source = body\<close> when it is a body property.
  Collection exports: every colon placeholder (Postman) or brace placeholder (Insomnia) of
  the path is a parameter name, and its entry is the path-sourced one when no header and no
  raw-body key of the request has that name. Custom JSON: the parameters are those read from
  the item's four parameter keys, and two items that agree on these keys have the same
  parameters, whatever their paths. Merging returns records of its input.
\<close>

theorem placeholder_entries_by_parser:
  "(operation_endpoint extract_openapi_parameters path mn (JObj md) = Inr (Some oep)
      \<and> declared_params openapi_param_entry md = Inr declared
      \<and> request_body_entries md = Inr entries \<longrightarrow>
     distinct (map fst (param_items oep))
     \<and> set (find_brace_params (url oep)) \<subseteq> set (map fst (param_items oep))
     \<and> (\<forall>n \<in> set (find_brace_params (url oep)).
          (n \<notin> set (map fst declared) \<and> n \<notin> set (map fst entries) \<longrightarrow>
             map_of (param_items oep) n = Some (PJson (path_param n)))
          \<and> (n \<in> set (map fst declared) \<and> n \<notin> set (map fst entries) \<longrightarrow>
             map_of (param_items oep) n = map_option PJson (map_of declared n))
          \<and> (n \<in> set (map fst entries) \<longrightarrow>
             (\<exists>v. map_of (param_items oep) n = Some (PJson v)
                \<and> entry_source v = JStr ''body''))))
   \<and> (postman_request_endpoint loads folder_path item = Inr (Some pep)
      \<and> as_dict (dict_get item ''request'' JNull) = Inr request \<longrightarrow>
     distinct (map fst (param_items pep))
     \<and> set (find_colon_params (url pep)) \<subseteq> set (map fst (param_items pep))
     \<and> (\<forall>n \<in> set (find_colon_params (url pep)).
          n \<notin> set (postman_header_names request) \<and> n \<notin> set (postman_body_names loads request) \<longrightarrow>
          map_of (param_items pep) n = Some (PJson (path_param n))))
   \<and> (insomnia_resource_endpoint (JObj resource) = Inr (Some iep) \<longrightarrow>
     distinct (map fst (param_items iep))
     \<and> set (find_brace_params (url iep)) \<subseteq> set (map fst (param_items iep))
     \<and> (\<forall>n \<in> set (find_brace_params (url iep)).
          n \<notin> set (insomnia_header_names resource) \<longrightarrow>
          map_of (param_items iep) n = Some (PJson (path_param n))))
   \<and> (custom_item_endpoint (JObj it) = Inr (Some cep) \<longrightarrow>
     param_items cep = map (\<lambda>(k, v). (k, PJson v)) (extract_custom_parameters it))
   \<and> ((\<forall>k \<in> set [''parameters'', ''params'', ''args'', ''fields'']. map_of it k = map_of it' k) \<longrightarrow>
     extract_custom_parameters it = extract_custom_parameters it')
   \<and> set (deduplicate_endpoints eps) \<subseteq> set eps"
  using openapi_record_placeholders [of path mn md oep declared entries]
    postman_record_placeholders [of loads folder_path item pep request]
    insomnia_record_placeholders [of resource iep]
    custom_item_endpoint_fields [of it cep]
    extract_custom_parameters_keys_only [of it it']
    deduplicate_subset [of eps]
  by blast

lemma operation_endpoint_users_id:
  "operation_endpoint extract_openapi_parameters ''/users/{id}'' ''get'' (JObj [])
   = Inr (Some \<lparr>url = ''/users/{id}'', http_method = GET, description = Some [],
       parameters = Some [(''id'', PJson (path_param ''id''))],
       request_body = None, response_schema = None, authentication_required = False,
       tags = []\<rparr>)"
  by (simp add: operation_endpoint_def char_defs http_method_of_def
      extract_openapi_parameters_def declared_params_def dict_get_def request_body_entries_def
      assign_all_def make_endpoint_def)

lemma postman_request_users_id:
  "postman_request_endpoint (\<lambda>s. None) []
     [(''name'', JStr ''Get user''),
      (''request'', JObj [(''method'', JStr ''GET''), (''url'', JStr ''/users/:id'')])]
   = Inr (Some \<lparr>url = ''/users/:id'', http_method = GET, description = Some ''Get user'',
       parameters = Some [(''id'', PJson (path_param ''id''))],
       request_body = None, response_schema = None, authentication_required = False,
       tags = []\<rparr>)"
  by (simp add: postman_request_endpoint_def dict_get_def char_defs http_method_of_def
      postman_url_path_def extract_postman_parameters_def postman_query_params_def
      postman_body_entries_def assign_all_def path_entries_def make_endpoint_def py_or_def
      ident_start_def ident_char_def)

lemma insomnia_resource_users_id:
  "insomnia_resource_endpoint
     (JObj [(''_type'', JStr ''request''), (''method'', JStr ''GET''),
            (''url'', JStr ''{{base}}/users/{id}''), (''name'', JStr ''Get user'')])
   = Inr (Some \<lparr>url = ''/users/{id}'', http_method = GET, description = Some ''Get user'',
       parameters = Some [(''id'', PJson (path_param ''id''))],
       request_body = None, response_schema = None, authentication_required = False,
       tags = []\<rparr>)"
  by (simp add: insomnia_resource_endpoint_def dict_get_def char_defs http_method_of_def
      insomnia_url_path_def extract_insomnia_parameters_def assign_all_def path_entries_def
      make_endpoint_def py_or_def)

theorem placeholder_entries_by_parser_witness:
  "operation_endpoint extract_openapi_parameters ''/users/{id}'' ''get'' (JObj [])
     = Inr (Some \<lparr>url = ''/users/{id}'', http_method = GET, description = Some [],
       parameters = Some [(''id'', PJson (path_param ''id''))],
       request_body = None, response_schema = None, authentication_required = False,
       tags = []\<rparr>)
   \<and> declared_params openapi_param_entry [] = Inr []
   \<and> request_body_entries [] = Inr []
   \<and> find_brace_params ''/users/{id}'' = [''id'']
   \<and> map_of (param_items \<lparr>url = ''/users/{id}'', http_method = GET, description = Some [],
       parameters = Some [(''id'', PJson (path_param ''id''))],
       request_body = None, response_schema = None, authentication_required = False,
       tags = []\<rparr>) ''id''
     = Some (PJson (path_param ''id''))
   \<and> spec_placeholders_consistent \<lparr>url = ''/users/{id}'', http_method = GET, description = Some [],
       parameters = Some [(''id'', PJson (path_param ''id''))],
       request_body = None, response_schema = None, authentication_required = False,
       tags = []\<rparr>
   \<and> postman_request_endpoint (\<lambda>s. None) []
       [(''name'', JStr ''Get user''),
        (''request'', JObj [(''method'', JStr ''GET''), (''url'', JStr ''/users/:id'')])]
     = Inr (Some \<lparr>url = ''/users/:id'', http_method = GET, description = Some ''Get user'',
       parameters = Some [(''id'', PJson (path_param ''id''))],
       request_body = None, response_schema = None, authentication_required = False,
       tags = []\<rparr>)
   \<and> find_colon_params ''/users/:id'' = [''id'']
   \<and> spec_colon_placeholders_consistent \<lparr>url = ''/users/:id'', http_method = GET, description = Some ''Get user'',
       parameters = Some [(''id'', PJson (path_param ''id''))],
       request_body = None, response_schema = None, authentication_required = False,
       tags = []\<rparr>
   \<and> insomnia_resource_endpoint
       (JObj [(''_type'', JStr ''request''), (''method'', JStr ''GET''),
              (''url'', JStr ''{{base}}/users/{id}''), (''name'', JStr ''Get user'')])
     = Inr (Some \<lparr>url = ''/users/{id}'', http_method = GET, description = Some ''Get user'',
       parameters = Some [(''id'', PJson (path_param ''id''))],
       request_body = None, response_schema = None, authentication_required = False,
       tags = []\<rparr>)
   \<and> spec_placeholders_consistent \<lparr>url = ''/users/{id}'', http_method = GET, description = Some ''Get user'',
       parameters = Some [(''id'', PJson (path_param ''id''))],
       request_body = None, response_schema = None, authentication_required = False,
       tags = []\<rparr>"
proof -
  have d: "declared_params openapi_param_entry [] = Inr []"
    by (simp add: declared_params_def dict_get_def)
  have r: "request_body_entries [] = Inr []"
    by (simp add: request_body_entries_def)
  have f: "find_brace_params ''/users/{id}'' = [''id'']"
    by simp
  have c: "find_colon_params ''/users/:id'' = [''id'']"
    by (simp add: ident_start_def ident_char_def char_defs)
  have hn: "postman_header_names [(''method'', JStr ''GET''), (''url'', JStr ''/users/:id'')] = []"
    by (simp add: postman_header_names_def dict_get_def)
  have bn: "postman_body_names (\<lambda>s. None) [(''method'', JStr ''GET''), (''url'', JStr ''/users/:id'')] = []"
    by (simp add: postman_body_names_def postman_body_entries_def dict_get_def)
  have ihn: "insomnia_header_names [(''_type'', JStr ''request''), (''method'', JStr ''GET''),
              (''url'', JStr ''{{base}}/users/{id}''), (''name'', JStr ''Get user'')] = []"
    by (simp add: insomnia_header_names_def dict_get_def)
  note inst = placeholder_entries_by_parser
    [of "''/users/{id}''" "''get''" "[]" "\<lparr>url = ''/users/{id}'', http_method = GET, description = Some [],
       parameters = Some [(''id'', PJson (path_param ''id''))],
       request_body = None, response_schema = None, authentication_required = False,
       tags = []\<rparr>" "[]" "[]"
        "\<lambda>s. None" "[]"
        "[(''name'', JStr ''Get user''),
          (''request'', JObj [(''method'', JStr ''GET''), (''url'', JStr ''/users/:id'')])]"
        "\<lparr>url = ''/users/:id'', http_method = GET, description = Some ''Get user'',
       parameters = Some [(''id'', PJson (path_param ''id''))],
       request_body = None, response_schema = None, authentication_required = False,
       tags = []\<rparr>"
        "[(''method'', JStr ''GET''), (''url'', JStr ''/users/:id'')]"
        "[(''_type'', JStr ''request''), (''method'', JStr ''GET''),
              (''url'', JStr ''{{base}}/users/{id}''), (''name'', JStr ''Get user'')]"
        "\<lparr>url = ''/users/{id}'', http_method = GET, description = Some ''Get user'',
       parameters = Some [(''id'', PJson (path_param ''id''))],
       request_body = None, response_schema = None, authentication_required = False,
       tags = []\<rparr>"]
  have o1: "map_of (param_items \<lparr>url = ''/users/{id}'', http_method = GET, description = Some [],
       parameters = Some [(''id'', PJson (path_param ''id''))],
       request_body = None, response_schema = None, authentication_required = False,
       tags = []\<rparr>) ''id''
     = Some (PJson (path_param ''id''))"
    using inst operation_endpoint_users_id d r f by simp
  have o2: "spec_placeholders_consistent \<lparr>url = ''/users/{id}'', http_method = GET, description = Some [],
       parameters = Some [(''id'', PJson (path_param ''id''))],
       request_body = None, response_schema = None, authentication_required = False,
       tags = []\<rparr>"
    using o1 f by (simp add: spec_placeholders_consistent_def path_param_def)
  have p1: "map_of (param_items \<lparr>url = ''/users/:id'', http_method = GET, description = Some ''Get user'',
       parameters = Some [(''id'', PJson (path_param ''id''))],
       request_body = None, response_schema = None, authentication_required = False,
       tags = []\<rparr>) ''id''
     = Some (PJson (path_param ''id''))"
    using inst postman_request_users_id c hn bn by (simp add: dict_get_def)
  have p2: "spec_colon_placeholders_consistent \<lparr>url = ''/users/:id'', http_method = GET, description = Some ''Get user'',
       parameters = Some [(''id'', PJson (path_param ''id''))],
       request_body = None, response_schema = None, authentication_required = False,
       tags = []\<rparr>"
    using p1 c by (simp add: spec_colon_placeholders_consistent_def path_param_def)
  have i1: "map_of (param_items \<lparr>url = ''/users/{id}'', http_method = GET, description = Some ''Get user'',
       parameters = Some [(''id'', PJson (path_param ''id''))],
       request_body = None, response_schema = None, authentication_required = False,
       tags = []\<rparr>) ''id''
     = Some (PJson (path_param ''id''))"
    using inst insomnia_resource_users_id f ihn by simp
  have i2: "spec_placeholders_consistent \<lparr>url = ''/users/{id}'', http_method = GET, description = Some ''Get user'',
       parameters = Some [(''id'', PJson (path_param ''id''))],
       request_body = None, response_schema = None, authentication_required = False,
       tags = []\<rparr>"
    using i1 f by (simp add: spec_placeholders_consistent_def path_param_def)
  from operation_endpoint_users_id d r f o1 o2 postman_request_users_id c p2
    insomnia_resource_users_id i2
  show ?thesis by blast
qed

text \<open>
  C2, as the specification states it, fails. The custom JSON parser reads parameters from
  the item's parameter keys only, so the item \<^verbatim>\<open>{"method": "get", "path": "/users/{id}"}\<close>
  gives a record that passes the merge stage with a placeholder and no parameter. The
  OpenAPI 3 parser adds a placeholder only when its name is not declared: with \<^verbatim>\<open>id\<close>
  declared \<^verbatim>\<open>in: query\<close>, the record for \<^verbatim>\<open>/users/{id}\<close> has no path-sourced entry.
  In a collection export a later stage assigns over the placeholder's entry: for
  \<^verbatim>\<open>PUT /users/:id\<close> with the raw body \<^verbatim>\<open>{"id": 1}\<close> the entry of \<^verbatim>\<open>id\<close> has
  \<^verbatim>\<open>source = body\<close>.
\<close>

theorem custom_json_placeholder_without_parameter:
  "custom_loop [JObj [(''method'', JStr ''get''), (''path'', JStr ''/users/{id}'')]]
     = Inr [\<lparr>url = ''/users/{id}'', http_method = GET, description = Some [],
       parameters = Some [],
       request_body = None, response_schema = None, authentication_required = False,
       tags = []\<rparr>]
   \<and> deduplicate_endpoints [\<lparr>url = ''/users/{id}'', http_method = GET, description = Some [],
       parameters = Some [],
       request_body = None, response_schema = None, authentication_required = False,
       tags = []\<rparr>]
     = [\<lparr>url = ''/users/{id}'', http_method = GET, description = Some [],
       parameters = Some [],
       request_body = None, response_schema = None, authentication_required = False,
       tags = []\<rparr>]
   \<and> \<not> spec_placeholders_consistent \<lparr>url = ''/users/{id}'', http_method = GET, description = Some [],
       parameters = Some [],
       request_body = None, response_schema = None, authentication_required = False,
       tags = []\<rparr>
   \<and> operation_endpoint extract_openapi_parameters ''/users/{id}'' ''get''
       (JObj [(''parameters'', JArr [JObj [(''name'', JStr ''id''), (''in'', JStr ''query'')]])])
     = Inr (Some \<lparr>url = ''/users/{id}'', http_method = GET, description = Some [],
       parameters = Some [(''id'', PJson (param_entry ''id'' (JStr ''string'') (JStr ''query'')
                                            (JBool False) (JStr ''id parameter'')))],
       request_body = None, response_schema = None, authentication_required = False,
       tags = []\<rparr>)
   \<and> \<not> spec_placeholders_consistent \<lparr>url = ''/users/{id}'', http_method = GET, description = Some [],
       parameters = Some [(''id'', PJson (param_entry ''id'' (JStr ''string'') (JStr ''query'')
                                            (JBool False) (JStr ''id parameter'')))],
       request_body = None, response_schema = None, authentication_required = False,
       tags = []\<rparr>
   \<and> postman_request_endpoint
       (\<lambda>s. if s = ''{'' @ [CHR 0x22] @ ''id'' @ [CHR 0x22] @ '': 1}''
            then Some (JObj [(''id'', JInt 1)]) else None)
       []
       [(''name'', JStr ''Update user''),
        (''request'', JObj [(''method'', JStr ''PUT''), (''url'', JStr ''/users/:id''),
           (''body'', JObj [(''mode'', JStr ''raw''),
              (''raw'', JStr (''{'' @ [CHR 0x22] @ ''id'' @ [CHR 0x22] @ '': 1}''))])])]
     = Inr (Some \<lparr>url = ''/users/:id'', http_method = PUT, description = Some ''Update user'',
       parameters = Some [(''id'', PJson (body_param ''id''))],
       request_body = None, response_schema = None, authentication_required = False,
       tags = []\<rparr>)
   \<and> \<not> spec_colon_placeholders_consistent \<lparr>url = ''/users/:id'', http_method = PUT,
       description = Some ''Update user'',
       parameters = Some [(''id'', PJson (body_param ''id''))],
       request_body = None, response_schema = None, authentication_required = False,
       tags = []\<rparr>"
proof -
  have a: "custom_loop [JObj [(''method'', JStr ''get''), (''path'', JStr ''/users/{id}'')]]
     = Inr [\<lparr>url = ''/users/{id}'', http_method = GET, description = Some [],
       parameters = Some [],
       request_body = None, response_schema = None, authentication_required = False,
       tags = []\<rparr>]"
    by (simp add: custom_item_endpoint_def dict_get_def http_method_of_def char_defs
        make_endpoint_def extract_custom_parameters_def)
  have b: "deduplicate_endpoints [\<lparr>url = ''/users/{id}'', http_method = GET, description = Some [],
       parameters = Some [],
       request_body = None, response_schema = None, authentication_required = False,
       tags = []\<rparr>]
     = [\<lparr>url = ''/users/{id}'', http_method = GET, description = Some [],
       parameters = Some [],
       request_body = None, response_schema = None, authentication_required = False,
       tags = []\<rparr>]"
    by (simp add: deduplicate_endpoints_def)
  have c: "\<not> spec_placeholders_consistent \<lparr>url = ''/users/{id}'', http_method = GET, description = Some [],
       parameters = Some [],
       request_body = None, response_schema = None, authentication_required = False,
       tags = []\<rparr>"
    by (simp add: spec_placeholders_consistent_def param_items_def)
  have d: "operation_endpoint extract_openapi_parameters ''/users/{id}'' ''get''
       (JObj [(''parameters'', JArr [JObj [(''name'', JStr ''id''), (''in'', JStr ''query'')]])])
     = Inr (Some \<lparr>url = ''/users/{id}'', http_method = GET, description = Some [],
       parameters = Some [(''id'', PJson (param_entry ''id'' (JStr ''string'') (JStr ''query'')
                                            (JBool False) (JStr ''id parameter'')))],
       request_body = None, response_schema = None, authentication_required = False,
       tags = []\<rparr>)"
    by (simp add: operation_endpoint_def char_defs http_method_of_def
        extract_openapi_parameters_def declared_params_def dict_get_def request_body_entries_def
        assign_all_def make_endpoint_def openapi_param_entry_def openapi_source_map_def)
  have e: "\<not> spec_placeholders_consistent \<lparr>url = ''/users/{id}'', http_method = GET, description = Some [],
       parameters = Some [(''id'', PJson (param_entry ''id'' (JStr ''string'') (JStr ''query'')
                                            (JBool False) (JStr ''id parameter'')))],
       request_body = None, response_schema = None, authentication_required = False,
       tags = []\<rparr>"
    by (simp add: spec_placeholders_consistent_def param_items_def)
  have f: "postman_request_endpoint
       (\<lambda>s. if s = ''{'' @ [CHR 0x22] @ ''id'' @ [CHR 0x22] @ '': 1}''
            then Some (JObj [(''id'', JInt 1)]) else None)
       []
       [(''name'', JStr ''Update user''),
        (''request'', JObj [(''method'', JStr ''PUT''), (''url'', JStr ''/users/:id''),
           (''body'', JObj [(''mode'', JStr ''raw''),
              (''raw'', JStr (''{'' @ [CHR 0x22] @ ''id'' @ [CHR 0x22] @ '': 1}''))])])]
     = Inr (Some \<lparr>url = ''/users/:id'', http_method = PUT, description = Some ''Update user'',
       parameters = Some [(''id'', PJson (body_param ''id''))],
       request_body = None, response_schema = None, authentication_required = False,
       tags = []\<rparr>)"
    by (simp add: postman_request_endpoint_def dict_get_def char_defs http_method_of_def
        postman_url_path_def extract_postman_parameters_def postman_query_params_def
        postman_body_entries_def assign_all_def path_entries_def make_endpoint_def py_or_def
        ident_start_def ident_char_def)
  have g: "\<not> spec_colon_placeholders_consistent \<lparr>url = ''/users/:id'', http_method = PUT,
       description = Some ''Update user'',
       parameters = Some [(''id'', PJson (body_param ''id''))],
       request_body = None, response_schema = None, authentication_required = False,
       tags = []\<rparr>"
    by (simp add: spec_colon_placeholders_consistent_def param_items_def body_param_def
        ident_start_def ident_char_def char_defs)
  from a b c d e f g show ?thesis by blast
qed

text \<open>
  The Swagger 2 extractor, for comparison: it receives the path and returns the declared
  parameters alone.
\<close>

lemma swagger_endpoint_users_id:
  "operation_endpoint extract_swagger_parameters ''/users/{id}'' ''get'' (JObj [])
   = Inr (Some \<lparr>url = ''/users/{id}'', http_method = GET, description = Some [],
       parameters = Some [],
       request_body = None, response_schema = None, authentication_required = False,
       tags = []\<rparr>)"
  by (simp add: operation_endpoint_def char_defs http_method_of_def
      extract_swagger_parameters_def declared_params_def dict_get_def make_endpoint_def)

text \<open>
  C8. A top-level array whose first element carries \<^verbatim>\<open>path\<close>, \<^verbatim>\<open>url\<close> or \<^verbatim>\<open>method\<close> is
  detected as the custom endpoint list, and the loop builds its records; then the parser
  calls \<^verbatim>\<open>.get\<close> on the array, so that no top-level array at all yields a discovery result.
\<close>

theorem top_level_array_raises:
  "detect_json_format (JArr [JObj [(''method'', JStr ''GET''), (''path'', JStr ''/users'')]])
     = Inr ''custom_endpoints''
   \<and> custom_loop [JObj [(''method'', JStr ''GET''), (''path'', JStr ''/users'')]]
     = Inr [\<lparr>url = ''/users'', http_method = GET, description = Some [],
       parameters = Some [],
       request_body = None, response_schema = None, authentication_required = False,
       tags = []\<rparr>]
   \<and> parse_custom_endpoints (JArr [JObj [(''method'', JStr ''GET''), (''path'', JStr ''/users'')]])
     = Inl AttributeError
   \<and> isl (parse_custom_endpoints (JArr items))"
proof -
  have a: "detect_json_format (JArr [JObj [(''method'', JStr ''GET''), (''path'', JStr ''/users'')]])
     = Inr ''custom_endpoints''"
    by (simp add: detect_json_format_def is_openapi_def is_swagger_def is_postman_def
        is_insomnia_def has_custom_key_def)
  have b: "custom_loop [JObj [(''method'', JStr ''GET''), (''path'', JStr ''/users'')]]
     = Inr [\<lparr>url = ''/users'', http_method = GET, description = Some [],
       parameters = Some [],
       request_body = None, response_schema = None, authentication_required = False,
       tags = []\<rparr>]"
    by (simp add: custom_item_endpoint_def dict_get_def http_method_of_def char_defs
        make_endpoint_def extract_custom_parameters_def)
  have c: "parse_custom_endpoints (JArr [JObj [(''method'', JStr ''GET''), (''path'', JStr ''/users'')]])
     = Inl AttributeError"
    unfolding parse_custom_endpoints.simps b by simp
  have d: "isl (parse_custom_endpoints (JArr items))"
    by (simp split: sum.splits)
  from a b c d show ?thesis by blast
qed

end
